theory Spec2Isabelle
  imports Complex_Main
begin

section \<open>JSON values and strings\<close>

text \<open>
  A JavaScript string is a sequence of UTF-16 code units, here a list of numbers.
  \<open>utf16\<close> gives the code units of a text that is written in this file.
\<close>

type_synonym jstring = "nat list"

definition utf16 :: "string \<Rightarrow> jstring" where
  "utf16 s = map of_char s"

text \<open>
  Request bodies, payloads and results are JSON. A field that is missing from an object
  reads as \<open>undefined\<close>, which is \<open>None\<close> below.
\<close>

datatype jv =
    JNull
  | JBool bool
  | JNum real
  | JStr jstring
  | JArr "jv list"
  | JObj "(jstring \<times> jv) list"

definition JText :: "string \<Rightarrow> jv" where
  "JText s = JStr (utf16 s)"

text \<open>JavaScript truthiness of a value that may be \<open>undefined\<close>.\<close>

fun truthy :: "jv option \<Rightarrow> bool" where
  "truthy None = False"
| "truthy (Some JNull) = False"
| "truthy (Some (JBool b)) = b"
| "truthy (Some (JNum n)) = (n \<noteq> 0)"
| "truthy (Some (JStr s)) = (s \<noteq> [])"
| "truthy (Some (JArr xs)) = True"
| "truthy (Some (JObj fs)) = True"

text \<open>
  \<open>a || b\<close> on values: the left operand when it is truthy, the right one otherwise.
\<close>

definition orElse :: "jv option \<Rightarrow> jv \<Rightarrow> jv" where
  "orElse a b = (case a of None \<Rightarrow> b | Some v \<Rightarrow> if truthy a then v else b)"

text \<open>
  The code units that \<open>String.prototype.trim\<close> strips: the white space of ECMAScript
  (tab, vertical tab, form feed, space, no-break space, the other space separators
  U+1680, U+2000 to U+200A, U+202F, U+205F, U+3000, and U+FEFF) and its line
  terminators (line feed, carriage return, U+2028, U+2029).
  \<open>isBlank s\<close> is \<open>!s.trim()\<close>: nothing but such code units.
\<close>

definition isWhiteSpace :: "nat \<Rightarrow> bool" where
  "isWhiteSpace c =
     (c \<in> {9, 10, 11, 12, 13, 32, 160, 5760, 8232, 8233, 8239, 8287, 12288, 65279} \<or>
      (8192 \<le> c \<and> c \<le> 8202))"

definition isBlank :: "jstring \<Rightarrow> bool" where
  "isBlank s = list_all isWhiteSpace s"

text \<open>Decimal digits of a number, as a template literal prints it.\<close>

definition digit :: "nat \<Rightarrow> char" where
  "digit n = ''0123456789'' ! n"

fun string_of_nat :: "nat \<Rightarrow> string" where
  "string_of_nat n =
     (if n < 10 then [digit n]
      else string_of_nat (n div 10) @ [digit (n mod 10)])"

declare string_of_nat.simps [simp del]

section \<open>Jobs\<close>

datatype job_status = Pending | Processing | Completed | Failed

text \<open>
  The interface \<open>QueueJob\<close>. The field \<open>id\<close> is called \<open>jobId\<close> here.
  \<open>type\<close> is a string, not a two-valued tag: the worker has a branch for a type that
  is neither \<open>lyrics\<close> nor \<open>music\<close>. \<open>userId\<close> is whatever JSON value the request
  carried.
\<close>

record QueueJob =
  jobId :: string
  userId :: jv
  type :: string
  payload :: jv
  status :: job_status
  createdAt :: nat
  attempts :: nat
  error :: "string option"

text \<open>The argument of \<open>enqueueJob\<close>: a job without id, status, createdAt, attempts.\<close>

record NewJob =
  newUserId :: jv
  newType :: string
  newPayload :: jv
  newError :: "string option"

section \<open>The key-value store\<close>

text \<open>
  The code uses four families of keys: the list \<open>queue:pending\<close>, and the string keys
  \<open>job:<id>\<close>, \<open>result:<id>\<close> and \<open>error:<id>\<close>. The families are disjoint
  (lemma \<open>key_families_disjoint\<close>), so the store is one component per family. Every
  entry carries its remaining time to live in seconds; the list carries an optional one
  (\<open>None\<close>: the key never expires). An empty list is an absent key, as in Redis.
  Serialisation (\<open>JSON.stringify\<close>, \<open>JSON.parse\<close>) is the identity on jobs, and
  every store command succeeds: an unavailable store is outside this model.
\<close>

definition pendingKey :: string where
  "pendingKey = ''queue:pending''"

definition jobKey :: "string \<Rightarrow> string" where
  "jobKey i = ''job:'' @ i"

definition resultKey :: "string \<Rightarrow> string" where
  "resultKey i = ''result:'' @ i"

definition errorKey :: "string \<Rightarrow> string" where
  "errorKey i = ''error:'' @ i"

record kv_store =
  pending :: "QueueJob list"
  pending_ttl :: "nat option"
  job_recs :: "string \<rightharpoonup> QueueJob \<times> nat"
  result_recs :: "string \<rightharpoonup> jv \<times> nat"
  error_recs :: "string \<rightharpoonup> string \<times> nat"

definition emptyStore :: kv_store where
  "emptyStore = \<lparr>pending = [], pending_ttl = None, job_recs = Map.empty,
     result_recs = Map.empty, error_recs = Map.empty\<rparr>"

text \<open>\<open>LPUSH queue:pending\<close>: the new entry becomes index 0. A new key has no expiry.\<close>

definition lpush :: "QueueJob \<Rightarrow> kv_store \<Rightarrow> kv_store" where
  "lpush j s = s\<lparr>pending := j # pending s,
     pending_ttl := (if pending s = [] then None else pending_ttl s)\<rparr>"

text \<open>
  \<open>RPOP queue:pending\<close>: removes and returns the entry with the largest index; null on
  an absent key. A list that becomes empty is deleted, with its expiry.
\<close>

definition rpop :: "kv_store \<Rightarrow> QueueJob option \<times> kv_store" where
  "rpop s =
     (case pending s of
        [] \<Rightarrow> (None, s)
      | x # xs \<Rightarrow>
          (Some (last (x # xs)),
           s\<lparr>pending := butlast (x # xs),
             pending_ttl := (if xs = [] then None else pending_ttl s)\<rparr>))"

definition llen :: "kv_store \<Rightarrow> nat" where
  "llen s = length (pending s)"

text \<open>\<open>LRANGE queue:pending 0 -1\<close>: the whole list, index 0 first.\<close>

definition lrange :: "kv_store \<Rightarrow> QueueJob list" where
  "lrange s = pending s"

text \<open>\<open>SETEX\<close> and \<open>GET\<close> on the three families of string keys.\<close>

definition setex_job :: "string \<Rightarrow> nat \<Rightarrow> QueueJob \<Rightarrow> kv_store \<Rightarrow> kv_store" where
  "setex_job k ttl j s = s\<lparr>job_recs := (job_recs s)(k \<mapsto> (j, ttl))\<rparr>"

definition setex_result :: "string \<Rightarrow> nat \<Rightarrow> jv \<Rightarrow> kv_store \<Rightarrow> kv_store" where
  "setex_result k ttl r s = s\<lparr>result_recs := (result_recs s)(k \<mapsto> (r, ttl))\<rparr>"

definition setex_error :: "string \<Rightarrow> nat \<Rightarrow> string \<Rightarrow> kv_store \<Rightarrow> kv_store" where
  "setex_error k ttl e s = s\<lparr>error_recs := (error_recs s)(k \<mapsto> (e, ttl))\<rparr>"

definition get_job :: "string \<Rightarrow> kv_store \<Rightarrow> QueueJob option" where
  "get_job k s = map_option fst (job_recs s k)"

definition get_result :: "string \<Rightarrow> kv_store \<Rightarrow> jv option" where
  "get_result k s = map_option fst (result_recs s k)"

text \<open>
  The passing of \<open>dt\<close> seconds: an entry whose time to live has run out is gone.
\<close>

definition expire :: "nat \<Rightarrow> ('k \<rightharpoonup> 'v \<times> nat) \<Rightarrow> ('k \<rightharpoonup> 'v \<times> nat)" where
  "expire dt m =
     (\<lambda>k. case m k of
        None \<Rightarrow> None
      | Some (v, t) \<Rightarrow> if dt < t then Some (v, t - dt) else None)"

definition elapse :: "nat \<Rightarrow> kv_store \<Rightarrow> kv_store" where
  "elapse dt s =
     \<lparr>pending = (case pending_ttl s of
                   None \<Rightarrow> pending s
                 | Some t \<Rightarrow> if dt < t then pending s else []),
      pending_ttl = (case pending_ttl s of
                   None \<Rightarrow> None
                 | Some t \<Rightarrow> if dt < t then Some (t - dt) else None),
      job_recs = expire dt (job_recs s),
      result_recs = expire dt (result_recs s),
      error_recs = expire dt (error_recs s)\<rparr>"

section \<open>The rate limiter\<close>

text \<open>
  The limiter is a library (a sliding window over counters in the same store). The queue
  only calls \<open>ratelimit.limit(key)\<close>, so the limiter is a parameter: a state of any type
  and a function from a key and a state to a response and the next state.
\<close>

record limit_response =
  success :: bool
  remaining :: int
  reset :: nat

type_synonym 'l limiter = "string \<Rightarrow> 'l \<Rightarrow> limit_response \<times> 'l"

section \<open>The queue\<close>

text \<open>
  \<open>enqueueJob\<close>. \<open>now\<close> and \<open>now'\<close> are the two readings of \<open>Date.now()\<close>,
  \<open>rnd\<close> is \<open>Math.random().toString(36).substr(2, 9)\<close>.
\<close>

definition enqueueJob :: "NewJob \<Rightarrow> nat \<Rightarrow> string \<Rightarrow> nat \<Rightarrow> kv_store \<Rightarrow> string \<times> kv_store" where
  "enqueueJob job now rnd now' s =
     (let jid = ''job:'' @ string_of_nat now @ '':'' @ rnd;
          queueJob = \<lparr>jobId = jid, userId = newUserId job, type = newType job,
            payload = newPayload job, status = Pending, createdAt = now',
            attempts = 0, error = newError job\<rparr>;
          s1 = lpush queueJob s;
          s2 = setex_job jid 3600 queueJob s1
      in (jid, s2))"

text \<open>\<open>processNextJob\<close>: the limiter first, then the pop, then the job record.\<close>

definition processNextJob :: "'l limiter \<Rightarrow> 'l \<Rightarrow> kv_store \<Rightarrow> QueueJob option \<times> 'l \<times> kv_store" where
  "processNextJob limit rl s =
     (let (resp, rl') = limit ''suno-api'' rl
      in if \<not> success resp then (None, rl', s)
         else (case rpop s of
                 (None, s1) \<Rightarrow> (None, rl', s1)
               | (Some jobData, s1) \<Rightarrow>
                   (let job = jobData\<lparr>status := Processing, attempts := attempts jobData + 1\<rparr>;
                        s2 = setex_job (jobId job) 3600 job s1
                    in (Some job, rl', s2))))"

definition completeJob :: "string \<Rightarrow> jv \<Rightarrow> kv_store \<Rightarrow> kv_store" where
  "completeJob jid result s =
     (case get_job jid s of
        None \<Rightarrow> s
      | Some jobData \<Rightarrow>
          (let job = jobData\<lparr>status := Completed\<rparr>;
               s1 = setex_job jid 3600 job s;
               s2 = setex_result jid 3600 result s1
           in s2))"

definition failJob :: "string \<Rightarrow> string \<Rightarrow> nat \<Rightarrow> kv_store \<Rightarrow> kv_store" where
  "failJob jid err maxRetries s =
     (case get_job jid s of
        None \<Rightarrow> s
      | Some jobData \<Rightarrow>
          (let job = jobData\<lparr>error := Some err\<rparr>
           in if attempts job < maxRetries then
                (let job' = job\<lparr>status := Pending\<rparr>;
                     s1 = lpush job' s;
                     s2 = setex_job jid 3600 job' s1
                 in s2)
              else
                (let job' = job\<lparr>status := Failed\<rparr>;
                     s1 = setex_job jid 3600 job' s;
                     s2 = setex_error jid 3600 err s1
                 in s2)))"

text \<open>\<open>Array.prototype.findIndex\<close>: the first index that satisfies, or -1.\<close>

primrec findIndex :: "('a \<Rightarrow> bool) \<Rightarrow> 'a list \<Rightarrow> int" where
  "findIndex P [] = - 1"
| "findIndex P (x # xs) =
     (if P x then 0
      else (let r = findIndex P xs in if r < 0 then - 1 else r + 1))"

text \<open>
  \<open>getJobQueuePosition\<close>. Its \<open>catch\<close> block answers \<open>undefined\<close> when a store
  command throws, which no command of this model does.
\<close>

definition getJobQueuePosition :: "string \<Rightarrow> kv_store \<Rightarrow> nat option" where
  "getJobQueuePosition jid s =
     (let queueLength = llen s
      in if queueLength = 0 then None
         else (let queueItems = lrange s
               in if length queueItems = 0 then None
                  else (let position = findIndex (\<lambda>job. jobId job = jid) queueItems
                        in if position \<ge> 0 then Some (nat (position + 1)) else None)))"

text \<open>
  \<open>getJobStatus\<close>: the job and, for a pending job only, its queue position.
\<close>

definition getJobStatus :: "string \<Rightarrow> kv_store \<Rightarrow> (QueueJob \<times> nat option) option" where
  "getJobStatus jid s =
     (case get_job jid s of
        None \<Rightarrow> None
      | Some job \<Rightarrow>
          if status job = Pending then Some (job, getJobQueuePosition jid s)
          else Some (job, None))"

text \<open>
  \<open>getJobResult\<close>. The store hands back the stored value; the function answers
  \<open>null\<close> when there is none or when it is falsy, and puts a value that is a string
  through \<open>JSON.parse\<close>, which is a parameter here (\<open>None\<close>: the text is not JSON and
  the call throws).
\<close>

datatype outcome = Thrown | Returned jv

definition getJobResult :: "(jstring \<Rightarrow> jv option) \<Rightarrow> string \<Rightarrow> kv_store \<Rightarrow> outcome" where
  "getJobResult jsonParse jid s =
     (case get_result jid s of
        None \<Rightarrow> Returned JNull
      | Some resultData \<Rightarrow>
          if \<not> truthy (Some resultData) then Returned JNull
          else (case resultData of
                  JStr txt \<Rightarrow>
                    (case jsonParse txt of None \<Rightarrow> Thrown | Some v \<Rightarrow> Returned v)
                | _ \<Rightarrow> Returned resultData))"

definition getQueueSize :: "kv_store \<Rightarrow> nat" where
  "getQueueSize s = llen s"

definition getQueueStats :: "'l limiter \<Rightarrow> 'l \<Rightarrow> kv_store \<Rightarrow> (nat \<times> int \<times> nat) \<times> 'l" where
  "getQueueStats limit rl s =
     (let pendingCount = getQueueSize s;
          (resp, rl') = limit ''suno-api-stats'' rl
      in ((pendingCount, remaining resp, reset resp), rl'))"

section \<open>The enqueue endpoints\<close>

text \<open>
  \<open>const { story, moods, userId } = body\<close>: destructuring \<open>null\<close> throws; an object
  gives the value of the field (the last one, when the text repeated the key) or
  \<open>undefined\<close>; any other JSON value has none of the fields the code reads.
\<close>

definition field :: "string \<Rightarrow> jv \<Rightarrow> jv option" where
  "field k b = (case b of JObj fs \<Rightarrow> map_of (rev fs) (utf16 k) | _ \<Rightarrow> None)"

text \<open>
  \<open>!x || !x.trim()\<close>. \<open>None\<close>: \<open>x\<close> is truthy and not a string, so \<open>x.trim\<close> is
  not a function and the call throws.
\<close>

definition missingOrBlank :: "jv option \<Rightarrow> bool option" where
  "missingOrBlank x =
     (if \<not> truthy x then Some True
      else (case x of Some (JStr s) \<Rightarrow> Some (isBlank s) | _ \<Rightarrow> None))"

text \<open>
  The responses of the two endpoints: 200 with the job id, 400 with its message, and
  500 from the \<open>catch\<close> block.
\<close>

datatype enqueue_response = Enqueued string | BadRequest string | ServerError

text \<open>The lyrics endpoint (\<open>POST\<close>), on the parsed request body.\<close>

definition lyricsPOST :: "jv \<Rightarrow> nat \<Rightarrow> string \<Rightarrow> nat \<Rightarrow> kv_store \<Rightarrow> enqueue_response \<times> kv_store" where
  "lyricsPOST body now rnd now' s =
     (if body = JNull then (ServerError, s)
      else (let story = field ''story'' body;
                moods = field ''moods'' body;
                uid = field ''userId'' body
            in case missingOrBlank story of
                 None \<Rightarrow> (ServerError, s)
               | Some True \<Rightarrow> (BadRequest ''Story is required'', s)
               | Some False \<Rightarrow>
                   (let (jid, s') = enqueueJob
                          \<lparr>newUserId = orElse uid (JText ''anonymous''),
                           newType = ''lyrics'',
                           newPayload = JObj [(utf16 ''story'', orElse story JNull),
                                              (utf16 ''moods'', orElse moods (JArr []))],
                           newError = None\<rparr> now rnd now' s
                    in (Enqueued jid, s'))))"

text \<open>The music endpoint (\<open>POST\<close>), on the parsed request body.\<close>

definition musicPOST :: "jv \<Rightarrow> nat \<Rightarrow> string \<Rightarrow> nat \<Rightarrow> kv_store \<Rightarrow> enqueue_response \<times> kv_store" where
  "musicPOST body now rnd now' s =
     (if body = JNull then (ServerError, s)
      else (let endpoint = field ''endpoint'' body;
                requestBody = field ''requestBody'' body;
                uid = field ''userId'' body
            in case missingOrBlank endpoint of
                 None \<Rightarrow> (ServerError, s)
               | Some True \<Rightarrow> (BadRequest ''Endpoint is required'', s)
               | Some False \<Rightarrow>
                   if \<not> truthy requestBody then (BadRequest ''Request body is required'', s)
                   else (let (jid, s') = enqueueJob
                               \<lparr>newUserId = orElse uid (JText ''anonymous''),
                                newType = ''music'',
                                newPayload = JObj [(utf16 ''endpoint'', orElse endpoint JNull),
                                                   (utf16 ''requestBody'', orElse requestBody JNull)],
                                newError = None\<rparr> now rnd now' s
                         in (Enqueued jid, s'))))"

section \<open>The status endpoint\<close>

text \<open>
  A JavaScript number that is a non-negative integer or \<open>Infinity\<close> (a division by
  zero).
\<close>

datatype js_num = Fin nat | Infinity

text \<open>
  \<open>Math.ceil(queuePosition / maxRequests) * cronIntervalSeconds\<close>, for a position of at
  least 1 and a limit that is a non-negative integer.
\<close>

definition estimateWait :: "nat \<Rightarrow> nat \<Rightarrow> nat \<Rightarrow> js_num" where
  "estimateWait queuePosition maxRequests cronIntervalSeconds =
     (if maxRequests = 0 then Infinity
      else Fin (nat \<lceil>real queuePosition / real maxRequests\<rceil> * cronIntervalSeconds))"

text \<open>
  The messages of the response, by their template:
  \<^item> \<open>MsgFailedAfter n\<close>: Generation failed after n attempts. Please try ...
  \<^item> \<open>MsgFailed e\<close>: Failed: e
  \<^item> \<open>MsgRetrying n\<close>: Retrying... (attempt n/3)
  \<^item> \<open>MsgQueueAt p w\<close>: Your music is in the queue at position p. Estimated wait: w s
  \<^item> \<open>MsgQueueSoon\<close>: Job is in the queue and will be processed soon...
  \<^item> \<open>MsgCreatingRetry n\<close>: Creating your music... (retry n/3)
  \<^item> \<open>MsgCreatingNow\<close>: Your music is being created right now!
\<close>

datatype message =
    MsgFailedAfter nat
  | MsgFailed "string option"
  | MsgRetrying nat
  | MsgQueueAt nat js_num
  | MsgQueueSoon
  | MsgCreatingRetry nat
  | MsgCreatingNow

record status_view =
  viewJobId :: string
  viewStatus :: job_status
  viewType :: string
  viewCreatedAt :: nat
  viewAttempts :: nat
  viewMaxRetries :: nat
  viewResult :: "jv option"
  viewError :: "string option"
  viewMessage :: "message option"
  viewQueuePosition :: "nat option"
  viewEstimatedWaitSeconds :: "js_num option"

datatype status_response =
  StatusOK status_view | StatusBadRequest | StatusNotFound | StatusServerError

text \<open>
  The four \<open>if\<close> blocks of the handler, each an update of the response built so far.
  The first one gives \<open>None\<close> when \<open>getJobResult\<close> throws; the \<open>catch\<close> block of the
  handler then answers 500.
\<close>

definition whenCompleted ::
  "(jstring \<Rightarrow> jv option) \<Rightarrow> string \<Rightarrow> kv_store \<Rightarrow> QueueJob \<Rightarrow> status_view
     \<Rightarrow> status_view option" where
  "whenCompleted jsonParse jid s job v =
     (if status job = Completed
      then (case getJobResult jsonParse jid s of
              Thrown \<Rightarrow> None
            | Returned result \<Rightarrow> Some (v\<lparr>viewResult := Some result\<rparr>))
      else Some v)"

definition whenFailed :: "QueueJob \<Rightarrow> status_view \<Rightarrow> status_view" where
  "whenFailed job v =
     (if status job = Failed
      then v\<lparr>viewError := Some (case error job of
                                   None \<Rightarrow> ''Job failed''
                                 | Some e \<Rightarrow> if e = [] then ''Job failed'' else e),
             viewMessage := Some (if attempts job \<ge> 3 then MsgFailedAfter (attempts job)
                                  else MsgFailed (error job))\<rparr>
      else v)"

definition whenPending :: "nat \<Rightarrow> QueueJob \<Rightarrow> nat option \<Rightarrow> status_view \<Rightarrow> status_view" where
  "whenPending maxRequests job queuePosition v =
     (if status job = Pending then
        (let v1 = v\<lparr>viewQueuePosition := queuePosition\<rparr>
         in if attempts job > 0 then v1\<lparr>viewMessage := Some (MsgRetrying (attempts job + 1))\<rparr>
            else (case queuePosition of
                    None \<Rightarrow> v1\<lparr>viewMessage := Some MsgQueueSoon\<rparr>
                  | Some q \<Rightarrow>
                      if q = 0 then v1\<lparr>viewMessage := Some MsgQueueSoon\<rparr>
                      else (let cronIntervalSeconds = 60;
                                estimatedWaitSeconds = estimateWait q maxRequests cronIntervalSeconds
                            in v1\<lparr>viewEstimatedWaitSeconds := Some estimatedWaitSeconds,
                                  viewMessage := Some (MsgQueueAt q estimatedWaitSeconds)\<rparr>)))
      else v)"

definition whenProcessing :: "QueueJob \<Rightarrow> status_view \<Rightarrow> status_view" where
  "whenProcessing job v =
     (if status job = Processing
      then v\<lparr>viewMessage := Some (if attempts job > 1 then MsgCreatingRetry (attempts job)
                                  else MsgCreatingNow)\<rparr>
      else v)"

text \<open>The status endpoint (\<open>GET\<close>); \<open>maxRequests\<close> is the configured limit.\<close>

definition statusGET ::
  "(jstring \<Rightarrow> jv option) \<Rightarrow> nat \<Rightarrow> string \<Rightarrow> kv_store \<Rightarrow> status_response" where
  "statusGET jsonParse maxRequests jid s =
     (if jid = [] then StatusBadRequest
      else (case getJobStatus jid s of
              None \<Rightarrow> StatusNotFound
            | Some (job, queuePosition) \<Rightarrow>
                (let response = \<lparr>viewJobId = jobId job, viewStatus = status job,
                       viewType = type job, viewCreatedAt = createdAt job,
                       viewAttempts = attempts job, viewMaxRetries = 3,
                       viewResult = None, viewError = None, viewMessage = None,
                       viewQueuePosition = None, viewEstimatedWaitSeconds = None\<rparr>
                 in case whenCompleted jsonParse jid s job response of
                      None \<Rightarrow> StatusServerError
                    | Some v \<Rightarrow>
                        StatusOK (whenProcessing job
                          (whenPending maxRequests job queuePosition
                            (whenFailed job v))))))"

section \<open>The worker\<close>

text \<open>
  The two handlers call external services. Here a handler takes the payload and the
  state of the world outside (of any type) and gives the message of the error it throws
  (\<open>Inl\<close>) or its result (\<open>Inr\<close>), and the next state of the world: two calls with
  the same payload need not end the same way.
\<close>

type_synonym 'w handler = "jv \<Rightarrow> 'w \<Rightarrow> (string + jv) \<times> 'w"

definition runHandler :: "'w handler \<Rightarrow> 'w handler \<Rightarrow> QueueJob \<Rightarrow> 'w \<Rightarrow> (string + jv) \<times> 'w" where
  "runHandler processLyricsJob processMusicJob job w =
     (if type job = ''lyrics'' then processLyricsJob (payload job) w
      else if type job = ''music'' then processMusicJob (payload job) w
      else (Inl (''Unknown job type: '' @ type job), w))"

text \<open>
  What one turn of the loop saw: no job from \<open>processNextJob\<close>, a job whose handler
  returned, or a job whose handler threw.
\<close>

datatype turn = NoJob | Done QueueJob | Threw QueueJob string

text \<open>
  \<open>failJob(job.id, error.message)\<close> leaves \<open>maxRetries\<close> to its default.
\<close>

definition defaultMaxRetries :: nat where
  "defaultMaxRetries = 3"

text \<open>
  The loop ends because every turn that goes on has popped a job, and a job that comes
  back after a failure has one attempt more: the sum below decreases.
\<close>

definition potential :: "kv_store \<Rightarrow> nat" where
  "potential s = sum_list (map (\<lambda>j. Suc (defaultMaxRetries - attempts j)) (pending s))"

text \<open>
  The \<open>while\<close> loop of the worker. Besides \<open>processedCount\<close>, the world, the limiter
  and the store, the function returns what each turn saw, in order.
\<close>

function drainLoop ::
  "'l limiter \<Rightarrow> 'w handler \<Rightarrow> 'w handler \<Rightarrow> nat \<Rightarrow> nat \<Rightarrow> 'w \<Rightarrow> 'l \<Rightarrow> kv_store
     \<Rightarrow> turn list \<times> nat \<times> 'w \<times> 'l \<times> kv_store" where
  "drainLoop limit processLyricsJob processMusicJob maxJobs processedCount w rl s =
     (if processedCount < maxJobs then
        (case processNextJob limit rl s of
           (None, rl1, s1) \<Rightarrow> ([NoJob], processedCount, w, rl1, s1)
         | (Some job, rl1, s1) \<Rightarrow>
             (case runHandler processLyricsJob processMusicJob job w of
                (Inr result, w1) \<Rightarrow>
                  (let s2 = completeJob (jobId job) result s1;
                       (turns, n, w2, rl2, s3) =
                          drainLoop limit processLyricsJob processMusicJob maxJobs
                            (processedCount + 1) w1 rl1 s2
                   in (Done job # turns, n, w2, rl2, s3))
              | (Inl msg, w1) \<Rightarrow>
                  (let s2 = failJob (jobId job) msg defaultMaxRetries s1;
                       (turns, n, w2, rl2, s3) =
                          drainLoop limit processLyricsJob processMusicJob maxJobs
                            processedCount w1 rl1 s2
                   in (Threw job msg # turns, n, w2, rl2, s3))))
      else ([], processedCount, w, rl, s))"
  by pat_completeness auto
termination
proof (relation
    "measure (\<lambda>(limit, pl, pm, maxJobs, processedCount, w, rl, s). potential s)", goal_cases)
  case 1
  show ?case by simp
next
  case (2 limit pl pm maxJobs processedCount w rl s x y job rl1 s1 r w1 msg s2)
  then have pn: "processNextJob limit rl s = (Some job, rl1, s1)" by simp
  then have f: "pending s \<noteq> []" "pending s1 = butlast (pending s)"
    "get_job (jobId job) s1 = Some job"
    "attempts job = Suc (attempts (last (pending s)))"
    by (auto simp add: processNextJob_def rpop_def setex_job_def get_job_def Let_def
        split: prod.splits if_splits list.splits)
  have "pending s = butlast (pending s) @ [last (pending s)]"
    using f(1) by simp
  then have "potential s =
      sum_list (map (\<lambda>j. Suc (defaultMaxRetries - attempts j))
        (butlast (pending s) @ [last (pending s)]))"
    unfolding potential_def by simp
  then have p: "potential s =
      potential s1 + Suc (defaultMaxRetries - attempts (last (pending s)))"
    unfolding potential_def f(2) by simp
  have "pending (failJob (jobId job) msg defaultMaxRetries s1) =
      (if attempts job < defaultMaxRetries
       then job\<lparr>error := Some msg, status := Pending\<rparr> # pending s1 else pending s1)"
    using f(3) by (simp add: failJob_def setex_job_def setex_error_def lpush_def Let_def)
  then have "potential (failJob (jobId job) msg defaultMaxRetries s1) < potential s"
    unfolding p by (auto simp add: potential_def f(4) defaultMaxRetries_def)
  with 2 show ?case by simp
next
  case (3 limit pl pm maxJobs processedCount w rl s x y job rl1 s1 r w1 result s2)
  then have pn: "processNextJob limit rl s = (Some job, rl1, s1)" by simp
  then have f: "pending s \<noteq> []" "pending s1 = butlast (pending s)"
    by (auto simp add: processNextJob_def rpop_def setex_job_def Let_def
        split: prod.splits if_splits list.splits)
  have "pending s = butlast (pending s) @ [last (pending s)]"
    using f(1) by simp
  then have "potential s =
      sum_list (map (\<lambda>j. Suc (defaultMaxRetries - attempts j))
        (butlast (pending s) @ [last (pending s)]))"
    unfolding potential_def by simp
  then have p: "potential s =
      potential s1 + Suc (defaultMaxRetries - attempts (last (pending s)))"
    unfolding potential_def f(2) by simp
  have "pending (completeJob (jobId job) result s1) = pending s1"
    by (simp add: completeJob_def setex_job_def setex_result_def Let_def split: option.splits)
  then have "potential (completeJob (jobId job) result s1) < potential s"
    unfolding p by (simp add: potential_def)
  with 3 show ?case by simp
qed

declare drainLoop.simps [simp del]

text \<open>
  The header that the worker endpoint expects. \<open>cronSecret\<close> is the environment
  variable; one that is not set prints as \<open>undefined\<close>.
\<close>

definition expectedHeader :: "string option \<Rightarrow> string" where
  "expectedHeader cronSecret =
     ''Bearer '' @ (case cronSecret of None \<Rightarrow> ''undefined'' | Some c \<Rightarrow> c)"

text \<open>
  \<open>parseFloat((ms / 1000).toFixed(2))\<close>, in hundredths of a second. \<open>toFixed\<close> rounds
  the double nearest to \<open>ms / 1000\<close> to two decimals. The double is so close to the
  quotient that the result is the nearest hundredth, except when \<open>ms\<close> ends in 5 and
  the two candidates are equally near: then \<open>tieUp a\<close> says whether the double nearest
  to \<open>a / 1000\<close> is at or above \<open>a / 1000\<close>, which is a fact of floating point and a
  parameter here. A negative number is rounded by its absolute value.
\<close>

definition durationCs :: "(nat \<Rightarrow> bool) \<Rightarrow> int \<Rightarrow> int" where
  "durationCs tieUp ms =
     (let a = nat \<bar>ms\<bar>;
          n = a div 10 + (if 5 < a mod 10 \<or> (a mod 10 = 5 \<and> tieUp a) then 1 else 0)
      in if ms < 0 then - int n else int n)"

text \<open>
  The worker endpoint (\<open>GET\<close>). \<open>authHeader\<close> is the \<open>authorization\<close> header (\<open>None\<close>
  when the request has none), \<open>startTime\<close> and \<open>endTime\<close> are the two readings of
  \<open>Date.now()\<close>. The summary carries \<open>processed\<close> and \<open>duration\<close>, the latter in
  hundredths of a second.
\<close>

datatype cron_response = Unauthorized | Summary nat int

definition cronGET ::
  "string option \<Rightarrow> string option \<Rightarrow> nat \<Rightarrow> nat \<Rightarrow> (nat \<Rightarrow> bool) \<Rightarrow> 'l limiter
     \<Rightarrow> 'w handler \<Rightarrow> 'w handler \<Rightarrow> nat \<Rightarrow> 'w \<Rightarrow> 'l \<Rightarrow> kv_store
     \<Rightarrow> cron_response \<times> turn list \<times> 'w \<times> 'l \<times> kv_store" where
  "cronGET authHeader cronSecret startTime endTime tieUp limit processLyricsJob
     processMusicJob maxRequests w rl s =
     (if authHeader \<noteq> Some (expectedHeader cronSecret)
      then (Unauthorized, [], w, rl, s)
      else (let maxJobs = maxRequests;
                (stats, rl0) = getQueueStats limit rl s;
                (turns, processedCount, w1, rl1, s1) =
                   drainLoop limit processLyricsJob processMusicJob maxJobs 0 w rl0 s;
                duration = durationCs tieUp (int endTime - int startTime)
            in (Summary processedCount duration, turns, w1, rl1, s1)))"

text \<open>
  The turns of a run, taken one by one from a world, a limiter and a store:
  \<open>processNextJob\<close> is called and gives what the turn saw; for a job, the handler is
  run and ends as the turn says, and \<open>completeJob\<close> or \<open>failJob\<close> (with the default
  number of retries) follows; after a turn that saw no job nothing follows. The value
  is where the turns lead, or \<open>None\<close> when a turn is not what happens.
\<close>

fun replay ::
  "'l limiter \<Rightarrow> 'w handler \<Rightarrow> 'w handler \<Rightarrow> turn list \<Rightarrow> 'w \<Rightarrow> 'l \<Rightarrow> kv_store
     \<Rightarrow> ('w \<times> 'l \<times> kv_store) option" where
  "replay limit pl pm [] w rl s = Some (w, rl, s)"
| "replay limit pl pm (NoJob # ts) w rl s =
     (case processNextJob limit rl s of
        (None, rl1, s1) \<Rightarrow> if ts = [] then Some (w, rl1, s1) else None
      | (Some j, rl1, s1) \<Rightarrow> None)"
| "replay limit pl pm (Done job # ts) w rl s =
     (case processNextJob limit rl s of
        (None, rl1, s1) \<Rightarrow> None
      | (Some j, rl1, s1) \<Rightarrow>
          (case runHandler pl pm j w of
             (Inl msg, w1) \<Rightarrow> None
           | (Inr result, w1) \<Rightarrow>
               if j = job then replay limit pl pm ts w1 rl1 (completeJob (jobId j) result s1)
               else None))"
| "replay limit pl pm (Threw job msg # ts) w rl s =
     (case processNextJob limit rl s of
        (None, rl1, s1) \<Rightarrow> None
      | (Some j, rl1, s1) \<Rightarrow>
          (case runHandler pl pm j w of
             (Inl m, w1) \<Rightarrow>
               if j = job \<and> m = msg
               then replay limit pl pm ts w1 rl1 (failJob (jobId j) m defaultMaxRetries s1)
               else None
           | (Inr result, w1) \<Rightarrow> None))"

section \<open>Sequences of calls\<close>

text \<open>The job that \<open>enqueueJob\<close> builds from its argument, the clock and the random suffix.\<close>

definition queuedJob :: "NewJob \<times> nat \<times> string \<times> nat \<Rightarrow> QueueJob" where
  "queuedJob c =
     (case c of (job, now, rnd, now') \<Rightarrow>
        \<lparr>jobId = ''job:'' @ string_of_nat now @ '':'' @ rnd, userId = newUserId job,
         type = newType job, payload = newPayload job, status = Pending,
         createdAt = now', attempts = 0, error = newError job\<rparr>)"

text \<open>A sequence of \<open>enqueueJob\<close> calls, first call first.\<close>

fun enqueueAll :: "(NewJob \<times> nat \<times> string \<times> nat) list \<Rightarrow> kv_store \<Rightarrow> kv_store" where
  "enqueueAll [] s = s"
| "enqueueAll ((job, now, rnd, now') # cs) s =
     enqueueAll cs (snd (enqueueJob job now rnd now' s))"

text \<open>Up to \<open>n\<close> pops in a row: the jobs in the order they came out.\<close>

fun rpops :: "nat \<Rightarrow> kv_store \<Rightarrow> QueueJob list \<times> kv_store" where
  "rpops 0 s = ([], s)"
| "rpops (Suc n) s =
     (case rpop s of
        (None, s1) \<Rightarrow> ([], s1)
      | (Some j, s1) \<Rightarrow> (let (js, s2) = rpops n s1 in (j # js, s2)))"

text \<open>Counting the turns of the worker by what they saw.\<close>

fun isDone :: "turn \<Rightarrow> bool" where
  "isDone (Done j) = True"
| "isDone t = False"

fun isThrew :: "turn \<Rightarrow> bool" where
  "isThrew (Threw j m) = True"
| "isThrew t = False"

section \<open>Example limiters, jobs and stores\<close>

text \<open>
  Three limiters: one that always admits, one that always denies, and one that admits
  \<open>n\<close> calls per key (one window in which no time passes).
\<close>

definition admit :: "unit limiter" where
  "admit key u = (\<lparr>success = True, remaining = 1, reset = 0\<rparr>, ())"

definition deny :: "unit limiter" where
  "deny key u = (\<lparr>success = False, remaining = 0, reset = 0\<rparr>, ())"

definition window :: "nat \<Rightarrow> (string \<Rightarrow> nat) limiter" where
  "window n key used =
     (\<lparr>success = (used key < n), remaining = int (n - Suc (used key)), reset = 0\<rparr>,
      used(key := Suc (used key)))"

text \<open>The argument that the lyrics endpoint passes to \<open>enqueueJob\<close> for a story.\<close>

definition storyOf :: "string \<Rightarrow> NewJob" where
  "storyOf st = \<lparr>newUserId = JText ''anonymous'', newType = ''lyrics'',
     newPayload = JObj [(utf16 ''story'', JText st), (utf16 ''moods'', JArr [])],
     newError = None\<rparr>"

definition firstJob :: QueueJob where
  "firstJob = queuedJob (storyOf ''first'', 1000, ''aaa'', 1000)"

definition secondJob :: QueueJob where
  "secondJob = queuedJob (storyOf ''second'', 2000, ''bbb'', 2000)"

text \<open>The store after two jobs were enqueued into an empty one.\<close>

definition twoQueued :: kv_store where
  "twoQueued = enqueueAll [(storyOf ''first'', 1000, ''aaa'', 1000),
                           (storyOf ''second'', 2000, ''bbb'', 2000)] emptyStore"

text \<open>
  The store after the first of the two jobs was taken by the worker and failed once.
\<close>

definition retriedStore :: kv_store where
  "retriedStore =
     failJob (jobId firstJob) ''boom'' defaultMaxRetries
       (snd (snd (processNextJob admit () twoQueued)))"

text \<open>
  Two handlers: one that always throws, and one that throws on its first call and
  returns the payload on every later one (the state of the world counts the calls).
\<close>

definition throwing :: "unit handler" where
  "throwing p u = (Inl ''boom'', ())"

definition flaky :: "nat handler" where
  "flaky p calls = (if calls = 0 then Inl ''boom'' else Inr p, Suc calls)"

text \<open>A job of a type that no handler knows, and the store after it was enqueued.\<close>

definition videoOf :: NewJob where
  "videoOf = \<lparr>newUserId = JText ''anonymous'', newType = ''video'', newPayload = JObj [],
     newError = None\<rparr>"

definition videoJob :: QueueJob where
  "videoJob = queuedJob (videoOf, 1000, ''aaa'', 1000)"

definition videoQueued :: kv_store where
  "videoQueued = snd (enqueueJob videoOf 1000 ''aaa'' 1000 emptyStore)"

text \<open>The body of a 200 response of the status endpoint.\<close>

definition viewOf :: "status_response \<Rightarrow> status_view option" where
  "viewOf r = (case r of StatusOK v \<Rightarrow> Some v | _ \<Rightarrow> None)"

section \<open>Properties of the store and the queue\<close>

lemma key_families_disjoint:
  "jobKey i \<noteq> pendingKey" "resultKey i \<noteq> pendingKey" "errorKey i \<noteq> pendingKey"
  "jobKey i \<noteq> resultKey j" "jobKey i \<noteq> errorKey j" "resultKey i \<noteq> errorKey j"
  by (simp_all add: jobKey_def resultKey_def errorKey_def pendingKey_def)

lemma get_job_simps:
  "get_job k (setex_job k' t j s) = (if k = k' then Some j else get_job k s)"
  "get_job k (setex_result k' t r s) = get_job k s"
  "get_job k (setex_error k' t e s) = get_job k s"
  "get_job k (lpush j s) = get_job k s"
  by (simp_all add: get_job_def setex_job_def setex_result_def setex_error_def lpush_def)

lemma get_result_simps:
  "get_result k (setex_result k' t r s) = (if k = k' then Some r else get_result k s)"
  "get_result k (setex_job k' t j s) = get_result k s"
  "get_result k (setex_error k' t e s) = get_result k s"
  "get_result k (lpush j s) = get_result k s"
  by (simp_all add: get_result_def setex_job_def setex_result_def setex_error_def lpush_def)

lemma pending_simps:
  "pending (setex_job k t j s) = pending s"
  "pending (setex_result k t r s) = pending s"
  "pending (setex_error k t e s) = pending s"
  "pending (lpush j s) = j # pending s"
  by (simp_all add: setex_job_def setex_result_def setex_error_def lpush_def)

lemma pending_completeJob: "pending (completeJob jid r s) = pending s"
  by (simp add: completeJob_def setex_job_def setex_result_def Let_def split: option.splits)



lemma rev_snoc_pending:
  "xs \<noteq> [] \<Longrightarrow> rev xs = last xs # rev (butlast xs)"
  by (induction xs rule: rev_induct) simp_all

lemma rpops_take: "fst (rpops n s) = take n (rev (pending s))"
proof (induction n arbitrary: s)
  case 0
  show ?case by simp
next
  case (Suc n)
  show ?case
  proof (cases "pending s")
    case Nil
    then show ?thesis by (simp add: rpop_def)
  next
    case (Cons x xs)
    then have ne: "pending s \<noteq> []" by simp
    obtain s1 where r: "rpop s = (Some (last (pending s)), s1)"
      and p: "pending s1 = butlast (pending s)"
      using Cons by (auto simp: rpop_def)
    have "fst (rpops (Suc n) s) = last (pending s) # fst (rpops n s1)"
      by (simp add: r split: prod.splits)
    also have "\<dots> = last (pending s) # take n (rev (butlast (pending s)))"
      by (simp add: Suc p)
    also have "\<dots> = take (Suc n) (rev (pending s))"
      by (simp add: rev_snoc_pending [OF ne])
    finally show ?thesis .
  qed
qed


lemma jobId_firstJob: "jobId firstJob = ''job:1000:aaa''"
  by (simp add: firstJob_def queuedJob_def storyOf_def string_of_nat.simps digit_def)

lemma jobId_secondJob: "jobId secondJob = ''job:2000:bbb''"
  by (simp add: secondJob_def queuedJob_def storyOf_def string_of_nat.simps digit_def)

lemma fresh_firstJob: "attempts firstJob = 0" "status firstJob = Pending"
  by (simp_all add: firstJob_def queuedJob_def)

lemma pending_twoQueued: "pending twoQueued = [secondJob, firstJob]"
  by (simp add: twoQueued_def enqueueJob_def lpush_def setex_job_def emptyStore_def
      queuedJob_def firstJob_def secondJob_def Let_def)

lemma job_recs_twoQueued:
  "job_recs twoQueued =
     [jobId firstJob \<mapsto> (firstJob, 3600), jobId secondJob \<mapsto> (secondJob, 3600)]"
  by (simp add: twoQueued_def enqueueJob_def lpush_def setex_job_def emptyStore_def
      queuedJob_def firstJob_def secondJob_def Let_def)

lemma other_twoQueued:
  "pending_ttl twoQueued = None" "result_recs twoQueued = Map.empty"
  "error_recs twoQueued = Map.empty"
  by (simp_all add: twoQueued_def enqueueJob_def lpush_def setex_job_def emptyStore_def Let_def)

lemma get_job_elapsed: "get_job jid (elapse 3600 twoQueued) = None"
  by (simp add: get_job_def elapse_def expire_def job_recs_twoQueued)

lemma pending_elapsed: "pending (elapse 3600 twoQueued) = [secondJob, firstJob]"
  by (simp add: elapse_def other_twoQueued pending_twoQueued)

lemma findIndex_takeWhile:
  "findIndex P xs =
     (if list_ex P xs then int (length (takeWhile (\<lambda>x. \<not> P x) xs)) else - 1)"
  by (induction xs) (simp_all add: Let_def)

lemma getJobQueuePosition_eq:
  "getJobQueuePosition jid s =
     (if list_ex (\<lambda>job. jobId job = jid) (pending s)
      then Some (Suc (length (takeWhile (\<lambda>job. jobId job \<noteq> jid) (pending s))))
      else None)"
  by (cases "pending s")
    (auto simp add: getJobQueuePosition_def llen_def lrange_def findIndex_takeWhile Let_def nat_add_distrib)

lemma ceiling_quotient_nat:
  assumes "0 < m"
  shows "nat \<lceil>real q / real m\<rceil> = (q + m - 1) div m"
proof -
  define k where "k = (q + m - 1) div m"
  have lo: "k * m \<le> q + m - 1"
    unfolding k_def by simp
  have hi: "q + m - 1 < (k + 1) * m"
    unfolding k_def using assms
    by (metis Suc_eq_plus1 dividend_less_div_times add.commute mult.commute mult_Suc)
  have a: "q \<le> k * m"
    using hi assms by simp
  have b: "k = 0 \<or> (k - 1) * m < q"
    using lo assms by (cases k) auto
  have "\<lceil>real q / real m\<rceil> = int k"
  proof (rule ceiling_unique)
    show "real q / real m \<le> real_of_int (int k)"
      using a assms by (simp add: pos_divide_le_eq flip: of_nat_mult)
    show "real_of_int (int k) - 1 < real q / real m"
    proof (cases "k = 0")
      case True
      have "0 \<le> real q / real m" by simp
      then have "- 1 < real q / real m" by linarith
      then show ?thesis using True by simp
    next
      case False
      then have "(k - 1) * m < q" using b by simp
      then have "real ((k - 1) * m) < real q" by (simp only: of_nat_less_iff)
      then have "real (k - 1) * real m < real q" by simp
      then have "real (k - 1) < real q / real m"
        using assms by (simp add: pos_less_divide_eq)
      moreover have "real (k - 1) = real k - 1"
        using False by (simp add: of_nat_diff)
      ultimately show ?thesis by simp
    qed
  qed
  then show ?thesis
    by (simp add: k_def)
qed

lemma takeWhile_up_to_last:
  "distinct (map f xs) \<Longrightarrow> xs \<noteq> [] \<Longrightarrow>
     takeWhile (\<lambda>x. f x \<noteq> f (last xs)) xs = butlast xs"
proof (induction xs)
  case Nil
  then show ?case by simp
next
  case (Cons x xs)
  show ?case
  proof (cases "xs = []")
    case True
    then show ?thesis by simp
  next
    case False
    then have "last xs \<in> set xs" by simp
    then have "f x \<noteq> f (last xs)" using Cons.prems(1) by auto
    then show ?thesis using Cons False by simp
  qed
qed

lemma queuePosition_of_next_job:
  assumes "distinct (map jobId (pending s))" and "pending s \<noteq> []"
  shows "getJobQueuePosition (jobId (last (pending s))) s = Some (length (pending s))"
proof -
  have "list_ex (\<lambda>job. jobId job = jobId (last (pending s))) (pending s)"
    using assms(2) by (auto simp: list_ex_iff)
  then show ?thesis
    using assms by (simp add: getJobQueuePosition_eq takeWhile_up_to_last)
qed

lemma getJobStatus_position_pos:
  "getJobStatus jid s = Some (job, Some q) \<Longrightarrow> 0 < q \<and> status job = Pending"
  by (auto simp: getJobStatus_def getJobQueuePosition_eq split: option.splits if_splits)

lemma fresh_secondJob: "attempts secondJob = 0" "status secondJob = Pending"
  by (simp_all add: secondJob_def queuedJob_def)

lemma get_job_twoQueued:
  "get_job ''job:1000:aaa'' twoQueued = Some firstJob"
  "get_job ''job:2000:bbb'' twoQueued = Some secondJob"
  by (simp_all add: get_job_def job_recs_twoQueued jobId_firstJob jobId_secondJob)

lemma pending_retriedStore:
  "pending retriedStore =
     [firstJob\<lparr>status := Pending, attempts := 1, error := Some ''boom''\<rparr>, secondJob]"
  by (simp add: retriedStore_def processNextJob_def admit_def rpop_def pending_twoQueued
      failJob_def get_job_simps pending_simps fresh_firstJob defaultMaxRetries_def Let_def)

lemma get_job_retriedStore:
  "get_job ''job:1000:aaa'' retriedStore =
     Some (firstJob\<lparr>status := Pending, attempts := 1, error := Some ''boom''\<rparr>)"
  by (simp add: retriedStore_def processNextJob_def admit_def rpop_def pending_twoQueued
      failJob_def get_job_simps pending_simps fresh_firstJob defaultMaxRetries_def Let_def
      jobId_firstJob)

lemma estimateWait_div:
  "0 < m \<Longrightarrow> estimateWait q m c = Fin (((q + m - 1) div m) * c)"
  by (simp add: estimateWait_def ceiling_quotient_nat)

lemma utf16_eq: "(utf16 a = utf16 b) = (a = b)"
proof -
  have "inj (of_char :: char \<Rightarrow> nat)"
    by (rule inj_of_char)
  then have "inj (map (of_char :: char \<Rightarrow> nat))"
    by simp
  then show ?thesis
    by (simp add: utf16_def inj_eq)
qed

lemma field_skips_type:
  "k \<noteq> ''type'' \<Longrightarrow> field k (JObj (fs1 @ (utf16 ''type'', v) # fs2)) = field k (JObj (fs1 @ fs2))"
  by (simp add: field_def map_add_def utf16_eq split: option.splits)

lemma missingOrBlank_False:
  "missingOrBlank x = Some False \<longleftrightarrow> (\<exists>st. x = Some (JStr st) \<and> \<not> isBlank st)"
proof (cases x)
  case None
  then show ?thesis by (simp add: missingOrBlank_def)
next
  case (Some v)
  then show ?thesis
    by (cases v) (auto simp add: missingOrBlank_def isBlank_def)
qed

lemma field_JNull: "field k JNull = None"
  by (simp add: field_def)

lemma missingOrBlank_undefined: "missingOrBlank None = Some True"
  by (simp add: missingOrBlank_def)

lemma lyricsPOST_accept:
  assumes "missingOrBlank (field ''story'' body) = Some False"
  shows "fst (lyricsPOST body now rnd now' s) =
           Enqueued (''job:'' @ string_of_nat now @ '':'' @ rnd)"
    and "\<exists>j. pending (snd (lyricsPOST body now rnd now' s)) = j # pending s \<and>
           jobId j = ''job:'' @ string_of_nat now @ '':'' @ rnd \<and>
           type j = ''lyrics'' \<and> status j = Pending"
proof -
  have b: "body \<noteq> JNull"
    using assms by (auto simp add: field_JNull missingOrBlank_undefined)
  show "fst (lyricsPOST body now rnd now' s) =
           Enqueued (''job:'' @ string_of_nat now @ '':'' @ rnd)"
    using assms b by (simp add: lyricsPOST_def enqueueJob_def Let_def)
  show "\<exists>j. pending (snd (lyricsPOST body now rnd now' s)) = j # pending s \<and>
           jobId j = ''job:'' @ string_of_nat now @ '':'' @ rnd \<and>
           type j = ''lyrics'' \<and> status j = Pending"
    using assms b by (simp add: lyricsPOST_def enqueueJob_def pending_simps Let_def)
qed

lemma lyricsPOST_reject:
  assumes "missingOrBlank (field ''story'' body) \<noteq> Some False"
  shows "snd (lyricsPOST body now rnd now' s) = s"
    and "fst (lyricsPOST body now rnd now' s) \<noteq> Enqueued jid"
  using assms
  by (auto simp add: lyricsPOST_def Let_def split: option.splits bool.splits)

lemma musicPOST_accept:
  assumes "missingOrBlank (field ''endpoint'' body) = Some False"
    and "truthy (field ''requestBody'' body)"
  shows "fst (musicPOST body now rnd now' s) =
           Enqueued (''job:'' @ string_of_nat now @ '':'' @ rnd)"
    and "\<exists>j. pending (snd (musicPOST body now rnd now' s)) = j # pending s \<and>
           jobId j = ''job:'' @ string_of_nat now @ '':'' @ rnd \<and>
           type j = ''music'' \<and> status j = Pending"
proof -
  have b: "body \<noteq> JNull"
    using assms by (auto simp add: field_JNull missingOrBlank_undefined)
  show "fst (musicPOST body now rnd now' s) =
           Enqueued (''job:'' @ string_of_nat now @ '':'' @ rnd)"
    using assms b by (simp add: musicPOST_def enqueueJob_def Let_def)
  show "\<exists>j. pending (snd (musicPOST body now rnd now' s)) = j # pending s \<and>
           jobId j = ''job:'' @ string_of_nat now @ '':'' @ rnd \<and>
           type j = ''music'' \<and> status j = Pending"
    using assms b by (simp add: musicPOST_def enqueueJob_def pending_simps Let_def)
qed

lemma musicPOST_reject:
  assumes "missingOrBlank (field ''endpoint'' body) \<noteq> Some False \<or>
           \<not> truthy (field ''requestBody'' body)"
  shows "snd (musicPOST body now rnd now' s) = s"
    and "fst (musicPOST body now rnd now' s) \<noteq> Enqueued jid"
  using assms
  by (auto simp add: musicPOST_def Let_def split: option.splits bool.splits)

lemma isBlank_hi: "\<not> isBlank (utf16 ''hi'')" "utf16 ''hi'' \<noteq> []"
  by (simp_all add: isBlank_def isWhiteSpace_def utf16_def)

lemma type_firstJob: "type firstJob = ''lyrics''"
  by (simp add: firstJob_def queuedJob_def storyOf_def)

section \<open>Properties of the worker\<close>

lemma drainLoop_replay:
  "drainLoop limit pl pm maxJobs c w rl s = (turns, n, w', rl', s') \<Longrightarrow>
     replay limit pl pm turns w rl s = Some (w', rl', s') \<and>
     n = c + length (filter isDone turns) \<and>
     NoJob \<notin> set (butlast turns) \<and>
     ((turns \<noteq> [] \<and> last turns = NoJob \<and> n < maxJobs) \<or>
      (\<not> n < maxJobs \<and> (turns = [] \<or> isDone (last turns)))) \<and>
     (c \<le> maxJobs \<longrightarrow> n \<le> maxJobs)"
proof (induction limit pl pm maxJobs c w rl s arbitrary: turns n w' rl' s'
    rule: drainLoop.induct)
  case (1 limit pl pm maxJobs c w rl s)
  note unfold = drainLoop.simps [of limit pl pm maxJobs c w rl s]
  show ?case
  proof (cases "c < maxJobs")
    case False
    then show ?thesis
      using "1.prems" by (auto simp add: unfold)
  next
    case True
    obtain oj rl1 s1 where p: "processNextJob limit rl s = (oj, rl1, s1)"
      by (cases "processNextJob limit rl s") auto
    show ?thesis
    proof (cases oj)
      case None
      then show ?thesis
        using "1.prems" True p by (auto simp add: unfold)
    next
      case (Some job)
      obtain r w1 where h: "runHandler pl pm job w = (r, w1)"
        by (cases "runHandler pl pm job w") auto
      show ?thesis
      proof (cases r)
        case (Inl msg)
        obtain tr where r: "drainLoop limit pl pm maxJobs c w1 rl1
            (failJob (jobId job) msg defaultMaxRetries s1) = (tr, n, w', rl', s')"
          and t: "turns = Threw job msg # tr"
          using "1.prems" True p Some h Inl
          by (simp add: unfold split: prod.splits)
        note ih = "1.IH"(1) [OF True p [symmetric] Some refl h [symmetric] Inl refl r]
        have rp: "replay limit pl pm turns w rl s = Some (w', rl', s')"
          using ih p Some h Inl unfolding t by simp
        show ?thesis
          using ih True rp unfolding t by (cases tr) auto
      next
        case (Inr result)
        obtain tr where r: "drainLoop limit pl pm maxJobs (c + 1) w1 rl1
            (completeJob (jobId job) result s1) = (tr, n, w', rl', s')"
          and t: "turns = Done job # tr"
          using "1.prems" True p Some h Inr
          by (simp add: unfold split: prod.splits)
        note ih = "1.IH"(2) [OF True p [symmetric] Some refl h [symmetric] Inr refl r]
        have rp: "replay limit pl pm turns w rl s = Some (w', rl', s')"
          using ih p Some h Inr unfolding t by simp
        show ?thesis
          using ih True rp unfolding t by (cases tr) auto
      qed
    qed
  qed
qed

lemma length_turns:
  "NoJob \<notin> set (butlast turns) \<Longrightarrow>
     length turns = length (filter isDone turns) + length (filter isThrew turns) +
       (if turns \<noteq> [] \<and> last turns = NoJob then 1 else 0)"
proof (induction turns)
  case Nil
  show ?case by simp
next
  case (Cons t ts)
  show ?case
  proof (cases "ts = []")
    case True
    then show ?thesis by (cases t) simp_all
  next
    case False
    then show ?thesis using Cons by (cases t) simp_all
  qed
qed

lemma durationCs_near: "\<bar>10 * durationCs tieUp ms - ms\<bar> \<le> 5"
proof -
  define a where "a = nat \<bar>ms\<bar>"
  define q where "q = a div 10"
  define r where "r = a mod 10"
  define u where "u = (if 5 < r \<or> (r = 5 \<and> tieUp a) then 1 else 0 :: nat)"
  have a: "int a = \<bar>ms\<bar>"
    by (simp add: a_def)
  have "a = 10 * q + r"
    by (simp add: q_def r_def)
  then have s: "int a = 10 * int q + int r" "r < 10"
    by (simp_all add: r_def)
  have d: "durationCs tieUp ms = (if ms < 0 then - int (q + u) else int (q + u))"
    by (simp add: durationCs_def Let_def a_def q_def r_def u_def)
  have u: "(u = 1 \<and> 5 \<le> r) \<or> (u = 0 \<and> r \<le> 5)"
    by (auto simp add: u_def)
  show ?thesis
    unfolding d using a s u by (cases "ms < 0") auto
qed

lemma get_job_update:
  "get_job k (s\<lparr>pending := xs\<rparr>) = get_job k s"
  "get_job k (s\<lparr>pending_ttl := t\<rparr>) = get_job k s"
  by (simp_all add: get_job_def)

lemma type_secondJob: "type secondJob = ''lyrics''"
  by (simp add: secondJob_def queuedJob_def storyOf_def)

lemma videoJob_simps:
  "jobId videoJob = ''job:1000:aaa''" "type videoJob = ''video''" "attempts videoJob = 0"
  by (simp_all add: videoJob_def queuedJob_def videoOf_def string_of_nat.simps digit_def)

lemma processNextJob_videoQueued:
  "processNextJob admit () videoQueued =
     (Some (videoJob\<lparr>status := Processing, attempts := 1\<rparr>), (),
      snd (snd (processNextJob admit () videoQueued)))"
  by (simp add: processNextJob_def admit_def rpop_def videoQueued_def enqueueJob_def
      pending_simps emptyStore_def videoJob_def queuedJob_def Let_def)

section \<open>Claims\<close>

text \<open>
  C1. The queue position that \<open>getJobStatus\<close> reports is one plus the first index of
  the job's id in the range of the pending list (lemma \<open>getJobQueuePosition_eq\<close>), and
  none when the id is not in the list. The comments in \<open>getJobQueuePosition\<close> take index
  0 for the job that is processed next. It is not: \<open>enqueueJob\<close> pushes at index 0 and
  \<open>processNextJob\<close> pops at the other end. After two jobs were enqueued, the first
  one, which the next pop returns, has position 2 and the second one has position 1
  (in general the job that is popped next has the length of the list as its position,
  lemma \<open>queuePosition_of_next_job\<close>).
\<close>

theorem oldest_job_is_not_position_one:
  "getJobStatus ''job:1000:aaa'' twoQueued = Some (firstJob, Some 2) \<and>
   getJobStatus ''job:2000:bbb'' twoQueued = Some (secondJob, Some 1) \<and>
   fst (rpop twoQueued) = Some firstJob"
  by (simp add: getJobStatus_def get_job_twoQueued getJobQueuePosition_eq pending_twoQueued
      fresh_firstJob fresh_secondJob rpop_def jobId_firstJob jobId_secondJob)

text \<open>
  C2. \<open>processNextJob\<close> returns no job when the limiter denies, whatever the queue
  holds, and leaves the store alone. When the limiter admits and the pending list is
  empty it returns no job, and the limiter is left in the state after the admission
  (nothing is given back). When the limiter admits and the list is not empty, the job
  at the pop end is removed, its status becomes processing, its attempts grow by one,
  the updated record is written under the job's id for 3600 seconds, and that job is
  returned.
\<close>

theorem processNextJob_admission:
  "(\<not> success (fst (limit ''suno-api'' rl)) \<longrightarrow>
      processNextJob limit rl s = (None, snd (limit ''suno-api'' rl), s)) \<and>
   (success (fst (limit ''suno-api'' rl)) \<and> pending s = [] \<longrightarrow>
      processNextJob limit rl s = (None, snd (limit ''suno-api'' rl), s)) \<and>
   (success (fst (limit ''suno-api'' rl)) \<and> pending s \<noteq> [] \<longrightarrow>
      (\<exists>job s'. processNextJob limit rl s = (Some job, snd (limit ''suno-api'' rl), s') \<and>
         job = (last (pending s))\<lparr>status := Processing,
                  attempts := attempts (last (pending s)) + 1\<rparr> \<and>
         pending s' = butlast (pending s) \<and>
         pending_ttl s' = (if butlast (pending s) = [] then None else pending_ttl s) \<and>
         job_recs s' = (job_recs s)(jobId job \<mapsto> (job, 3600)) \<and>
         result_recs s' = result_recs s \<and> error_recs s' = error_recs s))"
  by (auto simp: processNextJob_def rpop_def setex_job_def Let_def
      split: prod.splits list.splits)

theorem processNextJob_admission_witness:
  "processNextJob deny () twoQueued = (None, (), twoQueued) \<and>
   processNextJob admit () emptyStore = (None, (), emptyStore) \<and>
   fst (processNextJob admit () twoQueued) =
     Some (firstJob\<lparr>status := Processing, attempts := 1\<rparr>)"
  using processNextJob_admission [of deny "()" twoQueued]
    processNextJob_admission [of admit "()" emptyStore]
    processNextJob_admission [of admit "()" twoQueued]
  by (auto simp add: admit_def deny_def pending_twoQueued emptyStore_def firstJob_def
      queuedJob_def)



text \<open>
  C4. \<open>failJob\<close> on a job whose record exists writes the message into the error field.
  With fewer attempts than \<open>maxRetries\<close> (3 when the caller leaves it out) the job
  becomes pending again and is pushed at the push end, so every job that was pending
  is popped before it. Otherwise the job becomes failed, its record is written, and the
  message goes to the error key.
\<close>

theorem failJob_retry_or_fail:
  "get_job jid s = Some j \<Longrightarrow>
     (attempts j < maxRetries \<longrightarrow>
        failJob jid msg maxRetries s =
          s\<lparr>pending := j\<lparr>error := Some msg, status := Pending\<rparr> # pending s,
            pending_ttl := (if pending s = [] then None else pending_ttl s),
            job_recs := (job_recs s)(jid \<mapsto> (j\<lparr>error := Some msg, status := Pending\<rparr>, 3600))\<rparr> \<and>
        fst (rpops (length (pending s)) (failJob jid msg maxRetries s)) = rev (pending s) \<and>
        fst (rpops (Suc (length (pending s))) (failJob jid msg maxRetries s)) =
          rev (pending s) @ [j\<lparr>error := Some msg, status := Pending\<rparr>]) \<and>
     (maxRetries \<le> attempts j \<longrightarrow>
        failJob jid msg maxRetries s =
          s\<lparr>job_recs := (job_recs s)(jid \<mapsto> (j\<lparr>error := Some msg, status := Failed\<rparr>, 3600)),
            error_recs := (error_recs s)(jid \<mapsto> (msg, 3600))\<rparr>) \<and>
     defaultMaxRetries = 3"
proof (intro conjI impI)
  show "defaultMaxRetries = 3"
    by (simp add: defaultMaxRetries_def)
next
  assume g: "get_job jid s = Some j" and a: "attempts j < maxRetries"
  show e: "failJob jid msg maxRetries s =
          s\<lparr>pending := j\<lparr>error := Some msg, status := Pending\<rparr> # pending s,
            pending_ttl := (if pending s = [] then None else pending_ttl s),
            job_recs := (job_recs s)(jid \<mapsto> (j\<lparr>error := Some msg, status := Pending\<rparr>, 3600))\<rparr>"
    using g a by (simp add: failJob_def setex_job_def lpush_def Let_def)
  show "fst (rpops (length (pending s)) (failJob jid msg maxRetries s)) = rev (pending s)"
    unfolding rpops_take e by simp
  show "fst (rpops (Suc (length (pending s))) (failJob jid msg maxRetries s)) =
          rev (pending s) @ [j\<lparr>error := Some msg, status := Pending\<rparr>]"
    unfolding rpops_take e by simp
next
  assume g: "get_job jid s = Some j" and a: "maxRetries \<le> attempts j"
  then show "failJob jid msg maxRetries s =
          s\<lparr>job_recs := (job_recs s)(jid \<mapsto> (j\<lparr>error := Some msg, status := Failed\<rparr>, 3600)),
            error_recs := (error_recs s)(jid \<mapsto> (msg, 3600))\<rparr>"
    by (simp add: failJob_def setex_job_def setex_error_def Let_def)
qed

theorem failJob_retry_or_fail_witness:
  "defaultMaxRetries = 3 \<and>
   pending (failJob (jobId firstJob) ''boom'' 3
     (snd (snd (processNextJob admit () twoQueued)))) =
     [firstJob\<lparr>status := Processing, attempts := 1\<rparr>
        \<lparr>error := Some ''boom'', status := Pending\<rparr>, secondJob] \<and>
   fst (rpops 2 (failJob (jobId firstJob) ''boom'' 3
     (snd (snd (processNextJob admit () twoQueued))))) =
     [secondJob, firstJob\<lparr>status := Processing, attempts := 1\<rparr>
        \<lparr>error := Some ''boom'', status := Pending\<rparr>] \<and>
   get_job ''j'' (failJob ''j'' ''boom'' 3
     (setex_job ''j'' 3600 (firstJob\<lparr>attempts := 3\<rparr>) emptyStore)) =
     Some (firstJob\<lparr>attempts := 3\<rparr>\<lparr>error := Some ''boom'', status := Failed\<rparr>) \<and>
   error_recs (failJob ''j'' ''boom'' 3
     (setex_job ''j'' 3600 (firstJob\<lparr>attempts := 3\<rparr>) emptyStore)) ''j'' =
     Some (''boom'', 3600)"
proof -
  define s1 where "s1 = snd (snd (processNextJob admit () twoQueued))"
  define j1 where "j1 = firstJob\<lparr>status := Processing, attempts := 1\<rparr>"
  have p1: "pending s1 = [secondJob]"
    by (simp add: s1_def processNextJob_def admit_def rpop_def pending_twoQueued
        pending_simps Let_def)
  have g1: "get_job (jobId firstJob) s1 = Some j1"
    by (simp add: s1_def j1_def processNextJob_def admit_def rpop_def pending_twoQueued
        get_job_simps fresh_firstJob Let_def)
  have a1: "attempts j1 < 3"
    by (simp add: j1_def)
  have n1: "Suc (length (pending s1)) = 2"
    by (simp add: p1)
  note r1 = failJob_retry_or_fail [OF g1, of 3 "''boom''", THEN conjunct1, rule_format, OF a1]
  have c1: "pending (failJob (jobId firstJob) ''boom'' 3 s1) =
      [j1\<lparr>error := Some ''boom'', status := Pending\<rparr>, secondJob]"
    by (subst r1 [THEN conjunct1]) (simp add: p1)
  have c2: "fst (rpops 2 (failJob (jobId firstJob) ''boom'' 3 s1)) =
      [secondJob, j1\<lparr>error := Some ''boom'', status := Pending\<rparr>]"
    using r1 [THEN conjunct2, THEN conjunct2] unfolding n1 by (simp add: p1)
  define s2 where "s2 = setex_job ''j'' 3600 (firstJob\<lparr>attempts := 3\<rparr>) emptyStore"
  have g2: "get_job ''j'' s2 = Some (firstJob\<lparr>attempts := 3\<rparr>)"
    by (simp add: s2_def get_job_simps)
  have a2: "3 \<le> attempts (firstJob\<lparr>attempts := 3\<rparr>)"
    by simp
  note r2 = failJob_retry_or_fail [OF g2, of 3 "''boom''", THEN conjunct2, THEN conjunct1,
      rule_format, OF a2]
  have c3: "get_job ''j'' (failJob ''j'' ''boom'' 3 s2) =
      Some (firstJob\<lparr>attempts := 3\<rparr>\<lparr>error := Some ''boom'', status := Failed\<rparr>)"
    by (subst r2) (simp add: get_job_def)
  have c4: "error_recs (failJob ''j'' ''boom'' 3 s2) ''j'' = Some (''boom'', 3600)"
    by (subst r2) simp
  show ?thesis
    using c1 c2 c3 c4
    unfolding s1_def s2_def j1_def by (simp add: defaultMaxRetries_def)
qed

text \<open>
  C5, as stated: a worker invocation calls \<open>processNextJob\<close> at most \<open>maxRequests\<close>
  times and reports the number of jobs it processed. It does not hold: the loop counts
  completed jobs only. With \<open>maxRequests = 1\<close>, a limiter that admits one call and a
  handler that throws, the worker calls \<open>processNextJob\<close> twice (one job that threw
  and went back to the queue, then no job) and reports 0 processed.
\<close>

theorem failed_jobs_are_not_counted:
  "cronGET (Some ''Bearer s3cret'') (Some ''s3cret'') 0 1234 (\<lambda>a. True) (window 1)
       throwing throwing 1 () (\<lambda>k. 0) twoQueued =
     (Summary 0 123,
      [Threw (firstJob\<lparr>status := Processing, attempts := 1\<rparr>) ''boom'', NoJob],
      (),
      (\<lambda>k. 0)(''suno-api-stats'' := 1, ''suno-api'' := 2),
      retriedStore)"
  by (simp add: cronGET_def expectedHeader_def getQueueStats_def window_def Let_def
      drainLoop.simps processNextJob_def rpop_def pending_twoQueued fresh_firstJob
      type_firstJob runHandler_def throwing_def failJob_def get_job_simps
      defaultMaxRetries_def retriedStore_def admit_def numeral_2_eq_2 durationCs_def)

text \<open>
  C5, amended. An invocation whose header is not \<open>Bearer\<close> followed by the secret (an
  unset secret reads \<open>undefined\<close>) changes nothing and gets no summary. An authorised
  invocation asks the limiter for the statistics once and then goes turn by turn, each
  turn one call of \<open>processNextJob\<close>: a job whose handler returns is passed to
  \<open>completeJob\<close> and counted, a job whose handler throws is passed to \<open>failJob\<close> with
  the default number of retries and not counted, and the world, the limiter and the
  store at the end are those that these calls leave. The run stops at the first call
  that gives no job, or as soon as \<open>maxRequests\<close> jobs are counted. The number of calls
  is the number of jobs completed plus the number of jobs whose handler threw, plus one
  when the run ended on a call that gave no job. The summary carries the number of
  jobs completed and the time between the two readings of the clock in seconds,
  rounded to two decimals (here in hundredths, at most 5 ms from the time).
\<close>

theorem worker_run:
  "(authHeader \<noteq> Some (expectedHeader cronSecret) \<longrightarrow>
      cronGET authHeader cronSecret startTime endTime tieUp limit pl pm maxRequests w rl s =
        (Unauthorized, [], w, rl, s)) \<and>
   (cronGET (Some (expectedHeader cronSecret)) cronSecret startTime endTime tieUp limit pl pm
        maxRequests w rl s = (resp, turns, w', rl', s') \<longrightarrow>
      replay limit pl pm turns w (snd (limit ''suno-api-stats'' rl)) s = Some (w', rl', s') \<and>
      NoJob \<notin> set (butlast turns) \<and>
      ((turns \<noteq> [] \<and> last turns = NoJob \<and> length (filter isDone turns) < maxRequests) \<or>
       (length (filter isDone turns) = maxRequests \<and> (turns = [] \<or> isDone (last turns)))) \<and>
      length turns = length (filter isDone turns) + length (filter isThrew turns) +
        (if turns \<noteq> [] \<and> last turns = NoJob then 1 else 0) \<and>
      resp = Summary (length (filter isDone turns))
               (durationCs tieUp (int endTime - int startTime)) \<and>
      \<bar>10 * durationCs tieUp (int endTime - int startTime) - (int endTime - int startTime)\<bar>
        \<le> 5)"
proof (intro conjI impI)
  assume "authHeader \<noteq> Some (expectedHeader cronSecret)"
  then show "cronGET authHeader cronSecret startTime endTime tieUp limit pl pm maxRequests
      w rl s = (Unauthorized, [], w, rl, s)"
    by (simp add: cronGET_def)
next
  assume c: "cronGET (Some (expectedHeader cronSecret)) cronSecret startTime endTime tieUp
      limit pl pm maxRequests w rl s = (resp, turns, w', rl', s')"
  define rl0 where "rl0 = snd (limit ''suno-api-stats'' rl)"
  obtain n where d: "drainLoop limit pl pm maxRequests 0 w rl0 s = (turns, n, w', rl', s')"
    and r: "resp = Summary n (durationCs tieUp (int endTime - int startTime))"
    using c
    by (auto simp add: cronGET_def getQueueStats_def rl0_def Let_def split: prod.splits)
  note f = drainLoop_replay [OF d]
  have n: "n = length (filter isDone turns)"
    using f by simp
  show "replay limit pl pm turns w (snd (limit ''suno-api-stats'' rl)) s = Some (w', rl', s')"
    using f by (simp add: rl0_def)
  show b: "NoJob \<notin> set (butlast turns)"
    using f by simp
  show "(turns \<noteq> [] \<and> last turns = NoJob \<and> length (filter isDone turns) < maxRequests) \<or>
       (length (filter isDone turns) = maxRequests \<and> (turns = [] \<or> isDone (last turns)))"
    using f n by auto
  show "length turns = length (filter isDone turns) + length (filter isThrew turns) +
        (if turns \<noteq> [] \<and> last turns = NoJob then 1 else 0)"
    by (rule length_turns [OF b])
  show "resp = Summary (length (filter isDone turns))
               (durationCs tieUp (int endTime - int startTime))"
    using r n by simp
  show "\<bar>10 * durationCs tieUp (int endTime - int startTime) - (int endTime - int startTime)\<bar>
        \<le> 5"
    by (rule durationCs_near)
qed

theorem worker_run_witness:
  "cronGET (Some ''Bearer wrong'') (Some ''s3cret'') 0 1234 (\<lambda>a. True) admit flaky flaky 2 0 ()
       twoQueued = (Unauthorized, [], 0, (), twoQueued) \<and>
   fst (cronGET (Some ''Bearer undefined'') None 0 1234 (\<lambda>a. True) admit flaky flaky 2 0 ()
       twoQueued) = Summary 2 123 \<and>
   fst (snd (cronGET (Some ''Bearer undefined'') None 0 1234 (\<lambda>a. True) admit flaky flaky 2 0 ()
       twoQueued)) =
     [Threw (firstJob\<lparr>status := Processing, attempts := 1\<rparr>) ''boom'',
      Done (secondJob\<lparr>status := Processing, attempts := 1\<rparr>),
      Done (firstJob\<lparr>status := Processing, attempts := 2, error := Some ''boom''\<rparr>)] \<and>
   replay admit flaky flaky
     [Threw (firstJob\<lparr>status := Processing, attempts := 1\<rparr>) ''boom'',
      Done (secondJob\<lparr>status := Processing, attempts := 1\<rparr>),
      Done (firstJob\<lparr>status := Processing, attempts := 2, error := Some ''boom''\<rparr>)]
     0 () twoQueued =
     Some (snd (snd (cronGET (Some ''Bearer undefined'') None 0 1234 (\<lambda>a. True) admit flaky
       flaky 2 0 () twoQueued)))"
proof -
  define run where "run = cronGET (Some (expectedHeader None)) None 0 1234 (\<lambda>a. True) admit
      flaky flaky 2 0 () twoQueued"
  obtain resp turns w' rl' s' where e: "run = (resp, turns, w', rl', s')"
    by (cases run) auto
  have h: "expectedHeader None = ''Bearer undefined''"
    by (simp add: expectedHeader_def)
  have "fst (snd run) =
     [Threw (firstJob\<lparr>status := Processing, attempts := 1\<rparr>) ''boom'',
      Done (secondJob\<lparr>status := Processing, attempts := 1\<rparr>),
      Done (firstJob\<lparr>status := Processing, attempts := 2, error := Some ''boom''\<rparr>)]"
    by (simp add: run_def cronGET_def getQueueStats_def Let_def admit_def flaky_def
        drainLoop.simps processNextJob_def rpop_def pending_twoQueued pending_simps
        fresh_firstJob fresh_secondJob type_firstJob type_secondJob runHandler_def
        failJob_def completeJob_def get_job_simps get_job_update defaultMaxRetries_def
        numeral_2_eq_2)
  then have t: "turns =
     [Threw (firstJob\<lparr>status := Processing, attempts := 1\<rparr>) ''boom'',
      Done (secondJob\<lparr>status := Processing, attempts := 1\<rparr>),
      Done (firstJob\<lparr>status := Processing, attempts := 2, error := Some ''boom''\<rparr>)]"
    unfolding e by simp
  have a: "Some ''Bearer wrong'' \<noteq> Some (expectedHeader (Some ''s3cret''))"
    by (simp add: expectedHeader_def)
  have st: "snd (admit ''suno-api-stats'' ()) = ()"
    by simp
  have d: "durationCs (\<lambda>a. True) (int 1234 - int 0) = 123"
    by (simp add: durationCs_def)
  note r1 = worker_run [of "Some ''Bearer wrong''" "Some ''s3cret''" 0 1234 "\<lambda>a. True" admit
      flaky flaky 2 0 "()" twoQueued, THEN conjunct1, rule_format, OF a]
  note r2 = worker_run [of _ None 0 1234 "\<lambda>a. True" admit flaky flaky 2 0 "()" twoQueued
      resp turns w' rl' s', THEN conjunct2, rule_format, OF e [unfolded run_def]]
  have c2: "resp = Summary 2 123"
    using r2 [THEN conjunct2, THEN conjunct2, THEN conjunct2, THEN conjunct2, THEN conjunct1]
    unfolding t d by simp
  have c3: "replay admit flaky flaky turns 0 () twoQueued = Some (w', rl', s')"
    using r2 [THEN conjunct1] by (simp only: st)
  show ?thesis
    using r1 c2 c3 e unfolding t run_def h by simp
qed

text \<open>
  C6, as stated: every pending job with a queue position gets an estimate. It does not
  hold: a job that is pending again after a failed attempt has a queue position and
  no estimate.
\<close>

theorem retried_job_has_no_estimate:
  "map_option viewStatus (viewOf (statusGET (\<lambda>txt. None) 20 ''job:1000:aaa'' retriedStore)) =
     Some Pending \<and>
   map_option viewQueuePosition
       (viewOf (statusGET (\<lambda>txt. None) 20 ''job:1000:aaa'' retriedStore)) = Some (Some 1) \<and>
   map_option viewEstimatedWaitSeconds
       (viewOf (statusGET (\<lambda>txt. None) 20 ''job:1000:aaa'' retriedStore)) = Some None"
  by (simp add: statusGET_def getJobStatus_def get_job_retriedStore getJobQueuePosition_eq
      pending_retriedStore jobId_firstJob viewOf_def whenCompleted_def whenFailed_def
      whenPending_def whenProcessing_def Let_def)

text \<open>
  C6, amended. For a pending job with a queue position and a positive
  \<open>maxRequests\<close>, the response carries the queue position. When the job has no
  attempt yet, it carries the estimate \<open>ceil(queuePosition / maxRequests) * 60\<close> and
  the message that names the position and the estimate; when the job has an attempt,
  it carries no estimate and the message \<open>Retrying... (attempt n/3)\<close> with \<open>n\<close> one
  more than the attempts made. The 60 is a constant of the code.
\<close>

theorem estimate_for_fresh_pending_job:
  "jid \<noteq> [] \<Longrightarrow> getJobStatus jid s = Some (job, Some q) \<Longrightarrow> status job = Pending \<Longrightarrow>
   0 < maxRequests \<Longrightarrow>
     statusGET jsonParse maxRequests jid s =
       StatusOK \<lparr>viewJobId = jobId job, viewStatus = Pending, viewType = type job,
         viewCreatedAt = createdAt job, viewAttempts = attempts job, viewMaxRetries = 3,
         viewResult = None, viewError = None,
         viewMessage =
           Some (if attempts job = 0 then MsgQueueAt q (estimateWait q maxRequests 60)
                 else MsgRetrying (attempts job + 1)),
         viewQueuePosition = Some q,
         viewEstimatedWaitSeconds =
           (if attempts job = 0 then Some (estimateWait q maxRequests 60) else None)\<rparr> \<and>
     estimateWait q maxRequests 60 = Fin (nat \<lceil>real q / real maxRequests\<rceil> * 60)"
proof -
  assume j: "jid \<noteq> []" and g: "getJobStatus jid s = Some (job, Some q)"
    and p: "status job = Pending" and m: "0 < maxRequests"
  have q: "q \<noteq> 0"
    using getJobStatus_position_pos [OF g] by simp
  show ?thesis
    using j g p m q
    by (simp add: statusGET_def whenCompleted_def whenFailed_def
        whenPending_def whenProcessing_def Let_def estimateWait_def)
qed

theorem estimate_for_fresh_pending_job_witness:
  "map_option viewEstimatedWaitSeconds
       (viewOf (statusGET (\<lambda>txt. None) 20 ''job:1000:aaa'' twoQueued)) = Some (Some (Fin 60)) \<and>
   map_option viewMessage
       (viewOf (statusGET (\<lambda>txt. None) 20 ''job:1000:aaa'' twoQueued)) =
     Some (Some (MsgQueueAt 2 (Fin 60))) \<and>
   map_option viewEstimatedWaitSeconds
       (viewOf (statusGET (\<lambda>txt. None) 1 ''job:1000:aaa'' twoQueued)) = Some (Some (Fin 120)) \<and>
   map_option viewQueuePosition
       (viewOf (statusGET (\<lambda>txt. None) 1 ''job:1000:aaa'' twoQueued)) = Some (Some 2) \<and>
   map_option viewMessage
       (viewOf (statusGET (\<lambda>txt. None) 20 ''job:1000:aaa'' retriedStore)) =
     Some (Some (MsgRetrying 2))"
proof -
  have j: "''job:1000:aaa'' \<noteq> []"
    by simp
  have g: "getJobStatus ''job:1000:aaa'' twoQueued = Some (firstJob, Some 2)"
    by (simp add: getJobStatus_def get_job_twoQueued getJobQueuePosition_eq pending_twoQueued
      fresh_firstJob jobId_firstJob jobId_secondJob)
  have p: "status firstJob = Pending"
    by (simp add: fresh_firstJob)
  define j1 where "j1 = firstJob\<lparr>status := Pending, attempts := 1, error := Some ''boom''\<rparr>"
  have g': "getJobStatus ''job:1000:aaa'' retriedStore = Some (j1, Some 1)"
    by (simp add: getJobStatus_def get_job_retriedStore getJobQueuePosition_eq
      pending_retriedStore jobId_firstJob j1_def)
  have p': "status j1 = Pending" "attempts j1 = 1"
    by (simp_all add: j1_def)
  have c: "estimateWait 2 20 60 = Fin 60" "estimateWait 2 1 60 = Fin 120"
    by (simp_all add: estimateWait_div)
  have a: "0 < (20::nat)" "0 < (1::nat)"
    by simp_all
  note r20 = estimate_for_fresh_pending_job [OF j g p a(1), of "\<lambda>txt. None", THEN conjunct1]
  note r1 = estimate_for_fresh_pending_job [OF j g p a(2), of "\<lambda>txt. None", THEN conjunct1]
  note r' = estimate_for_fresh_pending_job [OF j g' p'(1) a(1), of "\<lambda>txt. None",
      THEN conjunct1]
  show ?thesis
    unfolding r20 r1 r' by (simp add: viewOf_def fresh_firstJob c c [unfolded One_nat_def] p')
qed

text \<open>
  C7, as stated: the enqueue endpoints check that the type of the job is a known one
  and reject a submission with an unknown type. They do not: a submission to the
  lyrics endpoint that carries the type \<open>video\<close> is accepted and queued (as a lyrics
  job), and \<open>enqueueJob\<close> itself queues a job of type \<open>video\<close>.
\<close>

theorem unknown_type_is_accepted:
  "fst (lyricsPOST (JObj [(utf16 ''type'', JText ''video''), (utf16 ''story'', JText ''hi'')])
          1000 ''aaa'' 1000 emptyStore) = Enqueued ''job:1000:aaa'' \<and>
   map type (pending (snd (lyricsPOST (JObj [(utf16 ''type'', JText ''video''), (utf16 ''story'', JText ''hi'')])
          1000 ''aaa'' 1000 emptyStore))) = [''lyrics''] \<and>
   map type (pending (snd (enqueueJob
          \<lparr>newUserId = JText ''anonymous'', newType = ''video'', newPayload = JObj [],
           newError = None\<rparr> 1000 ''aaa'' 1000 emptyStore))) = [''video'']"
  by (simp add: lyricsPOST_def field_def missingOrBlank_def isBlank_hi enqueueJob_def
      pending_simps emptyStore_def string_of_nat.simps digit_def Let_def utf16_eq JText_def)

text \<open>
  C7, amended. The endpoints check the payload only. The lyrics endpoint enqueues
  exactly when the story is a string that is not blank, the music endpoint exactly
  when the endpoint is such a string and the request body is truthy; every other
  submission leaves the store as it was. The type of the job is never read from the
  submission: the lyrics endpoint enqueues a job of type \<open>lyrics\<close>, the music endpoint
  one of type \<open>music\<close>, and a \<open>type\<close> field in the body changes nothing.
  \<open>enqueueJob\<close> queues a job of any type. A job of a type other than these two is
  turned down only by the worker: when \<open>processNextJob\<close> hands it out, the dispatch
  throws \<open>Unknown job type\<close> and the type, no handler runs, and the loop passes the job
  to \<open>failJob\<close> and goes on without counting it; \<open>failJob\<close> puts the job back into
  the queue as pending while it has fewer than 3 attempts and marks it failed
  otherwise.
\<close>

theorem endpoints_check_payload_only:
  "((\<exists>jid. fst (lyricsPOST body now rnd now' s) = Enqueued jid) \<longleftrightarrow>
      (\<exists>st. field ''story'' body = Some (JStr st) \<and> \<not> isBlank st)) \<and>
   (case fst (lyricsPOST body now rnd now' s) of
      Enqueued jid \<Rightarrow>
        (\<exists>j. pending (snd (lyricsPOST body now rnd now' s)) = j # pending s \<and>
             jobId j = jid \<and> type j = ''lyrics'' \<and> status j = Pending)
    | _ \<Rightarrow> snd (lyricsPOST body now rnd now' s) = s) \<and>
   ((\<exists>jid. fst (musicPOST body now rnd now' s) = Enqueued jid) \<longleftrightarrow>
      (\<exists>e. field ''endpoint'' body = Some (JStr e) \<and> \<not> isBlank e) \<and>
      truthy (field ''requestBody'' body)) \<and>
   (case fst (musicPOST body now rnd now' s) of
      Enqueued jid \<Rightarrow>
        (\<exists>j. pending (snd (musicPOST body now rnd now' s)) = j # pending s \<and>
             jobId j = jid \<and> type j = ''music'' \<and> status j = Pending)
    | _ \<Rightarrow> snd (musicPOST body now rnd now' s) = s) \<and>
   lyricsPOST (JObj (fs1 @ (utf16 ''type'', v) # fs2)) now rnd now' s =
     lyricsPOST (JObj (fs1 @ fs2)) now rnd now' s \<and>
   musicPOST (JObj (fs1 @ (utf16 ''type'', v) # fs2)) now rnd now' s =
     musicPOST (JObj (fs1 @ fs2)) now rnd now' s \<and>
   (enqueueJob nj now rnd now' s =
      (jobId (queuedJob (nj, now, rnd, now')),
       s\<lparr>pending := queuedJob (nj, now, rnd, now') # pending s,
         pending_ttl := (if pending s = [] then None else pending_ttl s),
         job_recs := (job_recs s)(jobId (queuedJob (nj, now, rnd, now')) \<mapsto>
           (queuedJob (nj, now, rnd, now'), 3600))\<rparr>) \<and>
    type (queuedJob (nj, now, rnd, now')) = newType nj \<and>
    status (queuedJob (nj, now, rnd, now')) = Pending) \<and>
   (type job \<noteq> ''lyrics'' \<and> type job \<noteq> ''music'' \<and> processedCount < maxJobs \<and>
    processNextJob limit rl s = (Some job, rl1, s1) \<longrightarrow>
      runHandler pl pm job w = (Inl (''Unknown job type: '' @ type job), w) \<and>
      drainLoop limit pl pm maxJobs processedCount w rl s =
        (case drainLoop limit pl pm maxJobs processedCount w rl1
                (failJob (jobId job) (''Unknown job type: '' @ type job) defaultMaxRetries s1) of
           (turns, rest) \<Rightarrow> (Threw job (''Unknown job type: '' @ type job) # turns, rest)) \<and>
      get_job (jobId job)
          (failJob (jobId job) (''Unknown job type: '' @ type job) defaultMaxRetries s1) =
        Some (job\<lparr>error := Some (''Unknown job type: '' @ type job),
                   status := (if attempts job < 3 then Pending else Failed)\<rparr>) \<and>
      pending (failJob (jobId job) (''Unknown job type: '' @ type job) defaultMaxRetries s1) =
        (if attempts job < 3
         then job\<lparr>error := Some (''Unknown job type: '' @ type job), status := Pending\<rparr> #
                pending s1
         else pending s1))"
proof (intro conjI)
  show "(\<exists>jid. fst (lyricsPOST body now rnd now' s) = Enqueued jid) \<longleftrightarrow>
      (\<exists>st. field ''story'' body = Some (JStr st) \<and> \<not> isBlank st)"
    unfolding missingOrBlank_False [symmetric]
    using lyricsPOST_accept(1) lyricsPOST_reject(2) by blast
  show "case fst (lyricsPOST body now rnd now' s) of
      Enqueued jid \<Rightarrow>
        (\<exists>j. pending (snd (lyricsPOST body now rnd now' s)) = j # pending s \<and>
             jobId j = jid \<and> type j = ''lyrics'' \<and> status j = Pending)
    | _ \<Rightarrow> snd (lyricsPOST body now rnd now' s) = s"
  proof (cases "missingOrBlank (field ''story'' body) = Some False")
    case True
    show ?thesis
      using lyricsPOST_accept [OF True, of now rnd now' s] by simp
  next
    case False
    show ?thesis
      using lyricsPOST_reject [OF False, of now rnd now' s]
      by (simp split: enqueue_response.splits)
  qed
  show "(\<exists>jid. fst (musicPOST body now rnd now' s) = Enqueued jid) \<longleftrightarrow>
      (\<exists>e. field ''endpoint'' body = Some (JStr e) \<and> \<not> isBlank e) \<and>
      truthy (field ''requestBody'' body)"
    unfolding missingOrBlank_False [symmetric]
    using musicPOST_accept(1) musicPOST_reject(2) by blast
  show "case fst (musicPOST body now rnd now' s) of
      Enqueued jid \<Rightarrow>
        (\<exists>j. pending (snd (musicPOST body now rnd now' s)) = j # pending s \<and>
             jobId j = jid \<and> type j = ''music'' \<and> status j = Pending)
    | _ \<Rightarrow> snd (musicPOST body now rnd now' s) = s"
  proof (cases "missingOrBlank (field ''endpoint'' body) = Some False \<and>
      truthy (field ''requestBody'' body)")
    case True
    show ?thesis
      using musicPOST_accept [of body now rnd now' s] True by simp
  next
    case False
    then have "missingOrBlank (field ''endpoint'' body) \<noteq> Some False \<or>
           \<not> truthy (field ''requestBody'' body)"
      by simp
    from musicPOST_reject [OF this, of now rnd now' s] show ?thesis
      by (simp split: enqueue_response.splits)
  qed
  show "lyricsPOST (JObj (fs1 @ (utf16 ''type'', v) # fs2)) now rnd now' s =
     lyricsPOST (JObj (fs1 @ fs2)) now rnd now' s"
    by (simp add: lyricsPOST_def field_skips_type)
  show "musicPOST (JObj (fs1 @ (utf16 ''type'', v) # fs2)) now rnd now' s =
     musicPOST (JObj (fs1 @ fs2)) now rnd now' s"
    by (simp add: musicPOST_def field_skips_type)
  show "enqueueJob nj now rnd now' s =
      (jobId (queuedJob (nj, now, rnd, now')),
       s\<lparr>pending := queuedJob (nj, now, rnd, now') # pending s,
         pending_ttl := (if pending s = [] then None else pending_ttl s),
         job_recs := (job_recs s)(jobId (queuedJob (nj, now, rnd, now')) \<mapsto>
           (queuedJob (nj, now, rnd, now'), 3600))\<rparr>)"
    by (simp add: enqueueJob_def queuedJob_def lpush_def setex_job_def Let_def)
  show "type (queuedJob (nj, now, rnd, now')) = newType nj"
    by (simp add: queuedJob_def)
  show "status (queuedJob (nj, now, rnd, now')) = Pending"
    by (simp add: queuedJob_def)
  show "type job \<noteq> ''lyrics'' \<and> type job \<noteq> ''music'' \<and> processedCount < maxJobs \<and>
    processNextJob limit rl s = (Some job, rl1, s1) \<longrightarrow>
      runHandler pl pm job w = (Inl (''Unknown job type: '' @ type job), w) \<and>
      drainLoop limit pl pm maxJobs processedCount w rl s =
        (case drainLoop limit pl pm maxJobs processedCount w rl1
                (failJob (jobId job) (''Unknown job type: '' @ type job) defaultMaxRetries s1) of
           (turns, rest) \<Rightarrow> (Threw job (''Unknown job type: '' @ type job) # turns, rest)) \<and>
      get_job (jobId job)
          (failJob (jobId job) (''Unknown job type: '' @ type job) defaultMaxRetries s1) =
        Some (job\<lparr>error := Some (''Unknown job type: '' @ type job),
                   status := (if attempts job < 3 then Pending else Failed)\<rparr>) \<and>
      pending (failJob (jobId job) (''Unknown job type: '' @ type job) defaultMaxRetries s1) =
        (if attempts job < 3
         then job\<lparr>error := Some (''Unknown job type: '' @ type job), status := Pending\<rparr> #
                pending s1
         else pending s1)"
  proof (intro impI)
    assume a: "type job \<noteq> ''lyrics'' \<and> type job \<noteq> ''music'' \<and> processedCount < maxJobs \<and>
      processNextJob limit rl s = (Some job, rl1, s1)"
    define msg where "msg = ''Unknown job type: '' @ type job"
    have h: "runHandler pl pm job w = (Inl msg, w)"
      using a by (simp add: runHandler_def msg_def)
    have g: "get_job (jobId job) s1 = Some job"
      using a
      by (auto simp add: processNextJob_def rpop_def get_job_simps Let_def
          split: prod.splits if_splits list.splits)
    have d: "drainLoop limit pl pm maxJobs processedCount w rl s =
        (case drainLoop limit pl pm maxJobs processedCount w rl1
                (failJob (jobId job) msg defaultMaxRetries s1) of
           (turns, rest) \<Rightarrow> (Threw job msg # turns, rest))"
      using a h
      by (simp add: drainLoop.simps [of limit pl pm maxJobs processedCount w rl s]
          split: prod.splits)
    have f1: "get_job (jobId job) (failJob (jobId job) msg defaultMaxRetries s1) =
        Some (job\<lparr>error := Some msg,
                   status := (if attempts job < 3 then Pending else Failed)\<rparr>)"
      using g by (simp add: failJob_def get_job_simps defaultMaxRetries_def Let_def)
    have f2: "pending (failJob (jobId job) msg defaultMaxRetries s1) =
        (if attempts job < 3 then job\<lparr>error := Some msg, status := Pending\<rparr> # pending s1
         else pending s1)"
      using g by (simp add: failJob_def pending_simps defaultMaxRetries_def Let_def)
    show "runHandler pl pm job w = (Inl (''Unknown job type: '' @ type job), w) \<and>
      drainLoop limit pl pm maxJobs processedCount w rl s =
        (case drainLoop limit pl pm maxJobs processedCount w rl1
                (failJob (jobId job) (''Unknown job type: '' @ type job) defaultMaxRetries s1) of
           (turns, rest) \<Rightarrow> (Threw job (''Unknown job type: '' @ type job) # turns, rest)) \<and>
      get_job (jobId job)
          (failJob (jobId job) (''Unknown job type: '' @ type job) defaultMaxRetries s1) =
        Some (job\<lparr>error := Some (''Unknown job type: '' @ type job),
                   status := (if attempts job < 3 then Pending else Failed)\<rparr>) \<and>
      pending (failJob (jobId job) (''Unknown job type: '' @ type job) defaultMaxRetries s1) =
        (if attempts job < 3
         then job\<lparr>error := Some (''Unknown job type: '' @ type job), status := Pending\<rparr> #
                pending s1
         else pending s1)"
      using h d f1 f2 unfolding msg_def by simp
  qed
qed

theorem endpoints_check_payload_only_witness:
  "lyricsPOST (JObj [(utf16 ''type'', JText ''video''), (utf16 ''story'', JText ''hi'')])
       1000 ''aaa'' 1000 emptyStore =
     lyricsPOST (JObj [(utf16 ''story'', JText ''hi'')]) 1000 ''aaa'' 1000 emptyStore \<and>
   snd (lyricsPOST (JObj [(utf16 ''moods'', JArr [])]) 1000 ''aaa'' 1000 twoQueued) = twoQueued \<and>
   snd (musicPOST (JObj [(utf16 ''endpoint'', JText ''hi'')]) 1000 ''aaa'' 1000 twoQueued) = twoQueued \<and>
   runHandler flaky flaky (videoJob\<lparr>status := Processing, attempts := 1\<rparr>) 5 =
     (Inl ''Unknown job type: video'', 5) \<and>
   hd (fst (drainLoop admit flaky flaky 1 0 5 () videoQueued)) =
     Threw (videoJob\<lparr>status := Processing, attempts := 1\<rparr>) ''Unknown job type: video'' \<and>
   pending (failJob ''job:1000:aaa'' ''Unknown job type: video'' defaultMaxRetries
       (snd (snd (processNextJob admit () videoQueued)))) =
     [videoJob\<lparr>status := Processing, attempts := 1,
        error := Some ''Unknown job type: video'', status := Pending\<rparr>]"
proof -
  note r1 = endpoints_check_payload_only
    [of "JObj [(utf16 ''moods'', JArr [])]" 1000 "''aaa''" 1000 emptyStore
      "[]" "JText ''video''" "[(utf16 ''story'', JText ''hi'')]"]
  note r2 = endpoints_check_payload_only
    [of "JObj [(utf16 ''moods'', JArr [])]" 1000 "''aaa''" 1000 twoQueued]
  note r3 = endpoints_check_payload_only
    [of "JObj [(utf16 ''endpoint'', JText ''hi'')]" 1000 "''aaa''" 1000 twoQueued]
  note r4 = endpoints_check_payload_only
    [of _ _ _ _ videoQueued _ _ _ _ "videoJob\<lparr>status := Processing, attempts := 1\<rparr>"
      0 1 admit "()" "()" "snd (snd (processNextJob admit () videoQueued))" flaky flaky 5,
      THEN conjunct2, THEN conjunct2, THEN conjunct2, THEN conjunct2, THEN conjunct2,
      THEN conjunct2, THEN conjunct2, rule_format]
  have n1: "\<not> (\<exists>st. field ''story'' (JObj [(utf16 ''moods'', JArr [])]) = Some (JStr st) \<and> \<not> isBlank st)"
    by (simp add: field_def utf16_eq)
  have n3: "\<not> truthy (field ''requestBody'' (JObj [(utf16 ''endpoint'', JText ''hi'')]))"
    by (simp add: field_def utf16_eq)
  have c2: "snd (lyricsPOST (JObj [(utf16 ''moods'', JArr [])]) 1000 ''aaa'' 1000 twoQueued) = twoQueued"
    using r2 [THEN conjunct1] r2 [THEN conjunct2, THEN conjunct1] n1
    by (cases "fst (lyricsPOST (JObj [(utf16 ''moods'', JArr [])]) 1000 ''aaa'' 1000 twoQueued)") auto
  have c3: "snd (musicPOST (JObj [(utf16 ''endpoint'', JText ''hi'')]) 1000 ''aaa'' 1000 twoQueued) = twoQueued"
    using r3 [THEN conjunct2, THEN conjunct2, THEN conjunct1]
      r3 [THEN conjunct2, THEN conjunct2, THEN conjunct2, THEN conjunct1] n3
    by (cases "fst (musicPOST (JObj [(utf16 ''endpoint'', JText ''hi'')]) 1000 ''aaa'' 1000 twoQueued)") auto
  have c1: "lyricsPOST (JObj [(utf16 ''type'', JText ''video''), (utf16 ''story'', JText ''hi'')])
       1000 ''aaa'' 1000 emptyStore =
     lyricsPOST (JObj [(utf16 ''story'', JText ''hi'')]) 1000 ''aaa'' 1000 emptyStore"
    using r1 [THEN conjunct2, THEN conjunct2, THEN conjunct2, THEN conjunct2, THEN conjunct1]
    by simp
  have h: "type (videoJob\<lparr>status := Processing, attempts := 1\<rparr>) \<noteq> ''lyrics'' \<and>
      type (videoJob\<lparr>status := Processing, attempts := 1\<rparr>) \<noteq> ''music'' \<and> (0::nat) < 1 \<and>
      processNextJob admit () videoQueued =
        (Some (videoJob\<lparr>status := Processing, attempts := 1\<rparr>), (),
         snd (snd (processNextJob admit () videoQueued)))"
    using processNextJob_videoQueued by (simp add: videoJob_simps)
  note k = r4 [OF h]
  have c4: "runHandler flaky flaky (videoJob\<lparr>status := Processing, attempts := 1\<rparr>) 5 =
     (Inl ''Unknown job type: video'', 5)"
    using k [THEN conjunct1] by (simp add: videoJob_simps)
  have c5: "hd (fst (drainLoop admit flaky flaky 1 0 5 () videoQueued)) =
     Threw (videoJob\<lparr>status := Processing, attempts := 1\<rparr>) ''Unknown job type: video''"
    unfolding k [THEN conjunct2, THEN conjunct1]
    by (simp add: videoJob_simps split: prod.splits)
  have c6: "pending (failJob ''job:1000:aaa'' ''Unknown job type: video'' defaultMaxRetries
       (snd (snd (processNextJob admit () videoQueued)))) =
     [videoJob\<lparr>status := Processing, attempts := 1,
        error := Some ''Unknown job type: video'', status := Pending\<rparr>]"
    using k [THEN conjunct2, THEN conjunct2, THEN conjunct2]
    by (simp add: videoJob_simps processNextJob_def admit_def rpop_def videoQueued_def
        enqueueJob_def pending_simps emptyStore_def Let_def)
  show ?thesis
    using c1 c2 c3 c4 c5 c6 by simp
qed

text \<open>
  C8. When the record of the job is absent, \<open>completeJob\<close> and \<open>failJob\<close> leave
  the whole store as it was: no record, result or error is written and nothing is
  pushed. Both return normally (the functions of this model are total; the warning on
  the console is not part of the store).
\<close>

theorem missing_job_is_noop:
  "get_job jid s = None \<Longrightarrow> completeJob jid result s = s \<and> failJob jid msg maxRetries s = s"
  by (simp add: completeJob_def failJob_def)

theorem missing_job_is_noop_witness:
  "get_job (jobId firstJob) (elapse 3600 twoQueued) = None \<and>
   completeJob (jobId firstJob) (JText ''done'') (elapse 3600 twoQueued) = elapse 3600 twoQueued \<and>
   failJob (jobId firstJob) ''timeout'' 3 (elapse 3600 twoQueued) = elapse 3600 twoQueued"
  using missing_job_is_noop [of "jobId firstJob" "elapse 3600 twoQueued" "JText ''done''" "''timeout''" 3]
  by (simp add: get_job_elapsed)

text \<open>
  C9. Neither \<open>completeJob\<close> nor \<open>failJob\<close> looks at the status of the record it
  finds. \<open>completeJob\<close> makes any existing record completed and stores the result;
  \<open>failJob\<close> on any existing record with fewer attempts than \<open>maxRetries\<close> makes it
  pending and pushes it onto the pending list. Both hold for every prior status, the
  terminal ones included.
\<close>

theorem no_status_check:
  "get_job jid s = Some j \<Longrightarrow>
     get_job jid (completeJob jid result s) = Some (j\<lparr>status := Completed\<rparr>) \<and>
     get_result jid (completeJob jid result s) = Some result \<and>
     (attempts j < maxRetries \<longrightarrow>
        get_job jid (failJob jid msg maxRetries s) = Some (j\<lparr>error := Some msg, status := Pending\<rparr>) \<and>
        pending (failJob jid msg maxRetries s) = j\<lparr>error := Some msg, status := Pending\<rparr> # pending s)"
  by (simp add: completeJob_def failJob_def get_job_simps get_result_simps pending_simps Let_def)

theorem no_status_check_witness:
  "get_job (jobId firstJob) twoQueued = Some firstJob \<and> status firstJob = Pending \<and>
   get_job (jobId firstJob) (completeJob (jobId firstJob) (JText ''ok'') twoQueued) =
     Some (firstJob\<lparr>status := Completed\<rparr>) \<and>
   get_job (jobId firstJob)
     (failJob (jobId firstJob) ''late'' 3
       (completeJob (jobId firstJob) (JText ''ok'') twoQueued)) =
     Some (firstJob\<lparr>status := Pending, error := Some ''late''\<rparr>) \<and>
   pending (failJob (jobId firstJob) ''late'' 3
       (completeJob (jobId firstJob) (JText ''ok'') twoQueued)) =
     [firstJob\<lparr>status := Pending, error := Some ''late''\<rparr>, secondJob, firstJob]"
proof -
  have g: "get_job (jobId firstJob) twoQueued = Some firstJob"
    by (simp add: get_job_def job_recs_twoQueued jobId_firstJob jobId_secondJob)
  define s1 where "s1 = completeJob (jobId firstJob) (JText ''ok'') twoQueued"
  have g1: "get_job (jobId firstJob) s1 = Some (firstJob\<lparr>status := Completed\<rparr>)"
    unfolding s1_def using no_status_check [OF g] by simp
  have p1: "pending s1 = [secondJob, firstJob]"
    by (simp add: s1_def pending_completeJob pending_twoQueued)
  have a: "attempts (firstJob\<lparr>status := Completed\<rparr>) < 3"
    by (simp add: firstJob_def queuedJob_def)
  show ?thesis
    using no_status_check [OF g, of "JText ''ok''" 3 "''late''"]
      no_status_check [OF g1, of "JText ''ok''" 3 "''late''"] a p1 g
    unfolding s1_def [symmetric]
    by (simp add: firstJob_def queuedJob_def)
qed

text \<open>
  C10. \<open>processNextJob\<close> takes the job from the popped entry of the pending list and
  never reads the record of the job: whatever the job records hold (the record of the
  job may have expired), when the limiter admits and the list is not empty it returns
  the popped job, marked processing with one attempt more, and writes its record with
  a time to live of 3600 seconds. No operation of the queue gives the pending list a
  time to live: a list without one keeps none through \<open>enqueueJob\<close>,
  \<open>processNextJob\<close>, \<open>completeJob\<close> and \<open>failJob\<close>.
\<close>

theorem processNextJob_ignores_record:
  "(success (fst (limit ''suno-api'' rl)) \<and> pending s \<noteq> [] \<longrightarrow>
      fst (processNextJob limit rl (s\<lparr>job_recs := m\<rparr>)) =
        Some ((last (pending s))\<lparr>status := Processing,
                attempts := attempts (last (pending s)) + 1\<rparr>) \<and>
      job_recs (snd (snd (processNextJob limit rl (s\<lparr>job_recs := m\<rparr>))))
          (jobId (last (pending s))) =
        Some ((last (pending s))\<lparr>status := Processing,
                attempts := attempts (last (pending s)) + 1\<rparr>, 3600)) \<and>
   (pending_ttl s = None \<longrightarrow>
      pending_ttl (snd (enqueueJob job now rnd now' s)) = None \<and>
      pending_ttl (snd (snd (processNextJob limit rl s))) = None \<and>
      pending_ttl (completeJob jid result s) = None \<and>
      pending_ttl (failJob jid msg maxRetries s) = None)"
proof (intro conjI impI)
  assume a: "success (fst (limit ''suno-api'' rl)) \<and> pending s \<noteq> []"
  then obtain x xs where c: "pending s = x # xs"
    by (cases "pending s") auto
  show "fst (processNextJob limit rl (s\<lparr>job_recs := m\<rparr>)) =
        Some ((last (pending s))\<lparr>status := Processing,
                attempts := attempts (last (pending s)) + 1\<rparr>)"
    using a by (auto simp add: processNextJob_def rpop_def c Let_def split: prod.splits)
  show "job_recs (snd (snd (processNextJob limit rl (s\<lparr>job_recs := m\<rparr>))))
          (jobId (last (pending s))) =
        Some ((last (pending s))\<lparr>status := Processing,
                attempts := attempts (last (pending s)) + 1\<rparr>, 3600)"
    using a by (auto simp add: processNextJob_def rpop_def setex_job_def c Let_def
        split: prod.splits)
next
  assume n: "pending_ttl s = None"
  show "pending_ttl (snd (enqueueJob job now rnd now' s)) = None"
    using n by (simp add: enqueueJob_def lpush_def setex_job_def Let_def)
  show "pending_ttl (snd (snd (processNextJob limit rl s))) = None"
    using n by (auto simp add: processNextJob_def rpop_def setex_job_def Let_def
        split: prod.splits list.splits)
  show "pending_ttl (completeJob jid result s) = None"
    using n by (simp add: completeJob_def setex_job_def setex_result_def Let_def
        split: option.splits)
  show "pending_ttl (failJob jid msg maxRetries s) = None"
    using n by (simp add: failJob_def lpush_def setex_job_def setex_error_def Let_def
        split: option.splits)
qed

theorem processNextJob_ignores_record_witness:
  "get_job (jobId firstJob) (elapse 3600 twoQueued) = None \<and>
   fst (processNextJob admit () (elapse 3600 twoQueued)) =
     Some (firstJob\<lparr>status := Processing, attempts := 1\<rparr>) \<and>
   job_recs (snd (snd (processNextJob admit () (elapse 3600 twoQueued)))) (jobId firstJob) =
     Some (firstJob\<lparr>status := Processing, attempts := 1\<rparr>, 3600) \<and>
   pending_ttl (snd (snd (processNextJob admit () (elapse 3600 twoQueued)))) = None"
proof -
  define s where "s = elapse 3600 twoQueued"
  have a: "success (fst (admit ''suno-api'' ())) \<and> pending s \<noteq> []"
    by (simp add: admit_def s_def pending_elapsed)
  have n: "pending_ttl s = None"
    by (simp add: s_def elapse_def other_twoQueued)
  have l: "last (pending s) = firstJob"
    by (simp add: s_def pending_elapsed)
  have e: "s\<lparr>job_recs := job_recs s\<rparr> = s"
    by simp
  note r = processNextJob_ignores_record [of admit "()" s "job_recs s"]
  show ?thesis
    using r [THEN conjunct1, rule_format, OF a] r [THEN conjunct2, rule_format, OF n]
    unfolding e l s_def [symmetric]
    by (simp add: get_job_elapsed [folded s_def] fresh_firstJob)
qed

end
